theory Spec2Isabelle
  imports Complex_Main "HOL-Library.Sublist" "HOL-Library.Multiset"
begin

section \<open>Tables\<close>

text \<open>
  A pandas data frame is modelled row-major: the list of its column names and the list of
  its rows, each row holding one cell per column. A cell is an integer, a string or the
  missing value (pandas' NaN/None). \<open>len(df)\<close> is the number of rows. Column names are
  looked up from the left; the frames handled here carry each column name once.
\<close>

datatype cell = Null | IntV int | StrV string

record dataframe =
  columns :: "string list"
  rows :: "cell list list"

definition len :: "dataframe \<Rightarrow> nat" where
  "len df = length (rows df)"

fun col_index :: "string \<Rightarrow> string list \<Rightarrow> nat option" where
  "col_index c [] = None"
| "col_index c (x # xs) =
     (if x = c then Some 0 else map_option Suc (col_index c xs))"

definition cell_at :: "cell list \<Rightarrow> nat \<Rightarrow> cell" where
  "cell_at r i = (if i < length r then r ! i else Null)"

definition isnull :: "cell \<Rightarrow> bool" where
  "isnull c = (c = Null)"

section \<open>Exceptions, the outside world and the log\<close>

text \<open>
  Python exceptions are values. \<open>KeyError\<close> and \<open>ValueError\<close> are the two classes that
  \<open>main\<close> raises itself (a missing dictionary key or column, a row-count mismatch);
  \<open>OtherException\<close> stands for any other instance of \<open>Exception\<close> raised by a
  collaborator, and \<open>NonException\<close> for an instance of \<open>BaseException\<close> outside
  \<open>Exception\<close> (KeyboardInterrupt, SystemExit), which \<open>except Exception\<close> does not catch.
\<close>

datatype exn = KeyError string | ValueError string | OtherException string | NonException string

fun is_Exception :: "exn \<Rightarrow> bool" where
  "is_Exception (NonException m) = False"
| "is_Exception e = True"

text \<open>
  What \<open>main\<close> does to its surroundings is recorded in a trace: every \<open>logging\<close> call of
  \<open>main\<close> itself (the parameters of an f-string kept as data), every call of a
  collaborator (\<open>Call\<close> when it is entered, \<open>Done\<close> when it returns normally) and every
  \<open>fold_test_accuracies.append\<close> (with the index of the fold).
\<close>

datatype event =
    Call string
  | Done string
  | Info string
  | InfoFold string nat
  | InfoNum string nat
  | InfoCols string "string list"
  | InfoPath string string
  | InfoMean "real option"
  | Error string
  | ErrorExn exn
  | Append nat

text \<open>
  The state of a run: the outside world \<open>'w\<close> (files, caches, the network), which only
  the collaborators read and write, and the trace.
\<close>

record 'w state =
  world :: 'w
  trace :: "event list"

type_synonym ('w, 'a) prog = "'w state \<Rightarrow> (exn + 'a) \<times> 'w state"

type_synonym ('w, 'a) extern = "'w \<Rightarrow> (exn + 'a) \<times> 'w"

definition return :: "'a \<Rightarrow> ('w, 'a) prog" where
  "return x st = (Inr x, st)"

definition raise :: "exn \<Rightarrow> ('w, 'a) prog" where
  "raise e st = (Inl e, st)"

definition bind :: "('w, 'a) prog \<Rightarrow> ('a \<Rightarrow> ('w, 'b) prog) \<Rightarrow> ('w, 'b) prog" where
  "bind m f st = (case m st of (Inl e, st') \<Rightarrow> (Inl e, st') | (Inr x, st') \<Rightarrow> f x st')"

definition emit :: "event \<Rightarrow> ('w, unit) prog" where
  "emit ev st = (Inr (), st\<lparr>trace := trace st @ [ev]\<rparr>)"

definition call :: "string \<Rightarrow> ('w, 'a) extern \<Rightarrow> ('w, 'a) prog" where
  "call name f st =
     (case f (world st) of
        (Inl e, w') \<Rightarrow> (Inl e, \<lparr>world = w', trace = trace st @ [Call name]\<rparr>)
      | (Inr x, w') \<Rightarrow> (Inr x, \<lparr>world = w', trace = trace st @ [Call name, Done name]\<rparr>))"

text \<open>\<open>d[k]\<close> on a dictionary: KeyError when the key is absent.\<close>

definition dict_get :: "(string \<rightharpoonup> string) \<Rightarrow> string \<Rightarrow> ('w, string) prog" where
  "dict_get d k = (case d k of None \<Rightarrow> raise (KeyError k) | Some v \<Rightarrow> return v)"

section \<open>The pandas operations that main applies itself\<close>

text \<open>
  \<open>s.map({1: 0, 0: 1})\<close>: every value of the series is looked up in the dictionary; a
  value that is not a key becomes the missing value.
\<close>

definition label_swap :: "(cell \<times> cell) list" where
  "label_swap = [(IntV 1, IntV 0), (IntV 0, IntV 1)]"

definition map_value :: "(cell \<times> cell) list \<Rightarrow> cell \<Rightarrow> cell" where
  "map_value d v = (case map_of d v of None \<Rightarrow> Null | Some v' \<Rightarrow> v')"

text \<open>
  \<open>df[c] = df[c].map(d)\<close>: KeyError when the column is absent, else the column is
  replaced in place, row by row.
\<close>

definition map_column :: "string \<Rightarrow> (cell \<times> cell) list \<Rightarrow> dataframe \<Rightarrow> exn + dataframe" where
  "map_column c d df =
     (case col_index c (columns df) of
        None \<Rightarrow> Inl (KeyError c)
      | Some i \<Rightarrow> Inr (df\<lparr>rows := map (\<lambda>r. r[i := map_value d (cell_at r i)]) (rows df)\<rparr>))"

text \<open>
  \<open>df.drop(columns=cs, inplace=True)\<close>: KeyError when one of the names is not a column,
  else every column with one of the names is removed.
\<close>

definition drop_columns :: "string list \<Rightarrow> dataframe \<Rightarrow> exn + dataframe" where
  "drop_columns cs df =
     (case filter (\<lambda>c. c \<notin> set (columns df)) cs of
        c # _ \<Rightarrow> Inl (KeyError c)
      | [] \<Rightarrow>
          (let keep = map (\<lambda>c. c \<notin> set cs) (columns df) in
           Inr \<lparr>columns = map fst (filter snd (zip (columns df) keep)),
                rows = map (\<lambda>r. map fst (filter snd (zip r keep))) (rows df)\<rparr>))"

text \<open>
  \<open>pd.concat([a.reset_index(drop=True), b.reset_index(drop=True)], axis=1)\<close>: both
  frames are relabelled 0, 1, 2, ... and laid side by side, so row \<open>i\<close> of the result is
  row \<open>i\<close> of \<open>a\<close> followed by row \<open>i\<close> of \<open>b\<close>; the shorter frame is filled up with
  missing values.
\<close>

definition pad_rows :: "nat \<Rightarrow> nat \<Rightarrow> cell list list \<Rightarrow> cell list list" where
  "pad_rows n k rs = rs @ replicate (n - length rs) (replicate k Null)"

definition concat_axis1 :: "dataframe \<Rightarrow> dataframe \<Rightarrow> dataframe" where
  "concat_axis1 a b =
     (let n = max (len a) (len b) in
      \<lparr>columns = columns a @ columns b,
       rows = map (\<lambda>(r, s). r @ s)
                (zip (pad_rows n (length (columns a)) (rows a))
                     (pad_rows n (length (columns b)) (rows b)))\<rparr>)"

text \<open>
  \<open>pd.concat([a, b])\<close>: the rows of \<open>a\<close> followed by the rows of \<open>b\<close>, over the columns
  of \<open>a\<close> and then the columns that only \<open>b\<close> has; a cell of a column that a frame lacks
  is missing.
\<close>

definition pd_concat :: "dataframe \<Rightarrow> dataframe \<Rightarrow> dataframe" where
  "pd_concat a b =
     (let new = filter (\<lambda>c. c \<notin> set (columns a)) (columns b);
          cols = columns a @ new in
      \<lparr>columns = cols,
       rows = map (\<lambda>r. map (cell_at r) [0 ..< length (columns a)] @ replicate (length new) Null)
                (rows a)
              @ map (\<lambda>r. map (\<lambda>c. case col_index c (columns b) of
                                       None \<Rightarrow> Null | Some i \<Rightarrow> cell_at r i) cols)
                  (rows b)\<rparr>)"

text \<open>
  \<open>df[df['sender'].isnull() | df['receiver'].isnull()]\<close>: the rows whose sender or
  receiver is missing; KeyError when the frame has no such column.
\<close>

definition missing_sender_receiver :: "dataframe \<Rightarrow> exn + cell list list" where
  "missing_sender_receiver df =
     (case col_index ''sender'' (columns df) of
        None \<Rightarrow> Inl (KeyError ''sender'')
      | Some i \<Rightarrow>
          (case col_index ''receiver'' (columns df) of
             None \<Rightarrow> Inl (KeyError ''receiver'')
           | Some j \<Rightarrow>
               Inr (filter (\<lambda>r. isnull (cell_at r i) \<or> isnull (cell_at r j)) (rows df))))"

text \<open>\<open>np.mean\<close> of a list of numbers; of the empty list it is nan (no exception).\<close>

definition np_mean :: "real list \<Rightarrow> real option" where
  "np_mean xs = (if xs = [] then None else Some (sum_list xs / real (length xs)))"

definition lift :: "exn + 'a \<Rightarrow> ('w, 'a) prog" where
  "lift r = (case r of Inl e \<Rightarrow> raise e | Inr x \<Rightarrow> return x)"

definition newline :: string where
  "newline = [CHR 0x0A]"

section \<open>The collaborators of main\<close>

text \<open>
  The functions that \<open>main\<close> imports from the package \<open>spamandphishingdetection\<close> and
  the file and network operations of pandas and \<open>datasets\<close> are parameters of the model.
  Each takes its arguments and the outside world and returns either an exception or a
  result, and the new world. Frames are passed by value. Objects that \<open>main\<close> only hands
  on (the configuration, the BERT extractor and transformer, the rare-category remover,
  a fitted model) have the type \<open>'o\<close>; a feature matrix has the type \<open>'x\<close>.

  Two calls in a row on one object are one collaborator: \<open>load_dataset\<close> stands for
  \<open>load_dataset(...).to_pandas()\<close> and \<open>process_dataset\<close> for
  \<open>DatasetProcessor(...).process_dataset()\<close>. Arguments that are the same constant in
  every call are left out: the callback \<open>data_cleaning\<close> of \<open>load_or_clean_data\<close>, and the
  title prefix, \<open>train_sizes\<close> and \<open>cv\<close> of \<open>plot_learning_curve\<close>.
\<close>

type_synonym fold = "dataframe \<times> dataframe \<times> cell list \<times> cell list"

text \<open>The scikit-learn and imbalanced-learn estimators that \<open>main\<close> composes.\<close>

datatype 'o estimator =
    Opaque 'o
  | SimpleImputer string
  | OneHotEncoder bool string
  | StandardScaler
  | SMOTE nat
  | Pipeline "(string \<times> 'o estimator) list"
  | ColumnTransformer "(string \<times> 'o estimator \<times> string list) list" string

record ('w, 'o, 'x) env =
  load_config :: "string \<Rightarrow> ('w, 'o) extern"
  get_file_paths :: "'o \<Rightarrow> ('w, string \<rightharpoonup> string) extern"
  read_csv :: "string \<Rightarrow> ('w, dataframe) extern"
  load_dataset :: "string \<Rightarrow> string \<Rightarrow> ('w, dataframe) extern"
  process_dataset :: "dataframe \<Rightarrow> string \<Rightarrow> string \<Rightarrow> string \<Rightarrow> ('w, dataframe) extern"
  log_label_percentages :: "dataframe \<Rightarrow> string \<Rightarrow> ('w, unit) extern"
  check_missing_values :: "dataframe \<Rightarrow> string \<Rightarrow> ('w, unit) extern"
  feature_engineering ::
    "dataframe \<Rightarrow> dataframe \<Rightarrow> (string \<rightharpoonup> string) \<Rightarrow> ('w, dataframe \<times> dataframe) extern"
  load_or_save_emails :: "dataframe \<Rightarrow> string \<Rightarrow> ('w, dataframe) extern"
  to_csv :: "dataframe \<Rightarrow> string \<Rightarrow> ('w, unit) extern"
  merge_dataframes ::
    "dataframe \<Rightarrow> dataframe \<Rightarrow> string \<Rightarrow> (string \<times> string) list option \<Rightarrow> string list
       \<Rightarrow> ('w, dataframe) extern"
  verify_merged_dataframe :: "dataframe \<Rightarrow> dataframe \<Rightarrow> string \<Rightarrow> string \<Rightarrow> ('w, unit) extern"
  combine_dataframes :: "dataframe \<Rightarrow> dataframe \<Rightarrow> string list \<Rightarrow> ('w, dataframe) extern"
  verify_combined_dataframe :: "dataframe \<Rightarrow> dataframe \<Rightarrow> ('w, unit) extern"
  save_combined_dataframe :: "dataframe \<Rightarrow> string \<Rightarrow> ('w, unit) extern"
  load_or_clean_data :: "string \<Rightarrow> dataframe \<Rightarrow> string \<Rightarrow> string \<Rightarrow> ('w, dataframe) extern"
  combine_columns_for_cleaning :: "dataframe \<Rightarrow> dataframe \<Rightarrow> ('w, dataframe) extern"
  save_dataframe_to_csv :: "dataframe \<Rightarrow> string \<Rightarrow> ('w, unit) extern"
  generate_noisy_dataframe :: "dataframe \<Rightarrow> string \<Rightarrow> ('w, dataframe) extern"
  stratified_k_fold_split :: "dataframe \<Rightarrow> ('w, fold list) extern"
  BERTFeatureExtractor :: "('w, 'o) extern"
  BERTFeatureTransformer :: "'o \<Rightarrow> ('w, 'o) extern"
  RareCategoryRemover :: "real \<Rightarrow> ('w, 'o) extern"
  run_pipeline_or_load ::
    "nat \<Rightarrow> dataframe \<Rightarrow> dataframe \<Rightarrow> cell list \<Rightarrow> cell list \<Rightarrow> 'o estimator \<Rightarrow> string
       \<Rightarrow> ('w, 'x \<times> 'x \<times> cell list \<times> cell list) extern"
  get_model_path :: "'o \<Rightarrow> nat \<Rightarrow> ('w, string) extern"
  get_params_path :: "'o \<Rightarrow> nat \<Rightarrow> ('w, string) extern"
  model_training ::
    "'x \<Rightarrow> cell list \<Rightarrow> 'x \<Rightarrow> cell list \<Rightarrow> string \<Rightarrow> string \<Rightarrow> ('w, 'o \<times> real) extern"
  plot_learning_curve :: "'o \<Rightarrow> 'x \<Rightarrow> cell list \<Rightarrow> nat \<Rightarrow> ('w, unit) extern"

section \<open>main\<close>

subsection \<open>Loading, before the try block\<close>

definition load_inputs ::
  "('w, 'o, 'x) env \<Rightarrow> ('w, 'o \<times> (string \<rightharpoonup> string) \<times> dataframe \<times> dataframe) prog" where
  "load_inputs env =
     bind (call ''load_config'' (load_config env ''config.json'')) (\<lambda>config.
     bind (call ''get_file_paths'' (get_file_paths env config)) (\<lambda>file_paths.
     bind (dict_get file_paths ''ceas_08_dataset'') (\<lambda>ceas_path.
     bind (call ''read_csv'' (read_csv env ceas_path)) (\<lambda>df_ceas.
     bind (call ''load_dataset'' (load_dataset env ''talby/spamassassin'' ''train''))
       (\<lambda>df_spamassassin.
     return (config, file_paths, df_ceas, df_spamassassin))))))"

subsection \<open>Data preprocessing\<close>

definition data_preprocessing ::
  "('w, 'o, 'x) env \<Rightarrow> (string \<rightharpoonup> string) \<Rightarrow> dataframe \<Rightarrow> dataframe
     \<Rightarrow> ('w, dataframe \<times> dataframe \<times> dataframe) prog" where
  "data_preprocessing env file_paths df_ceas df_spamassassin =
     bind (emit (Info ''Beginning Data Preprocessing...'')) (\<lambda>_.
     bind (lift (map_column ''label'' label_swap df_spamassassin)) (\<lambda>df_spamassassin.
     bind (dict_get file_paths ''preprocessed_spam_assassin_file'') (\<lambda>sa_path.
     bind (call ''process_dataset''
             (process_dataset env df_spamassassin ''text'' ''spam_assassin'' sa_path))
       (\<lambda>df_processed_spamassassin.
     bind (dict_get file_paths ''preprocessed_ceas_file'') (\<lambda>ceas_path.
     bind (call ''process_dataset'' (process_dataset env df_ceas ''body'' ''ceas_08'' ceas_path))
       (\<lambda>df_processed_ceas.
     let combined_percentage_df = pd_concat df_processed_spamassassin df_processed_ceas in
     bind (call ''log_label_percentages'' (log_label_percentages env df_processed_ceas ''CEAS_08''))
       (\<lambda>_.
     bind (call ''log_label_percentages''
             (log_label_percentages env df_processed_spamassassin ''SpamAssassin'')) (\<lambda>_.
     bind (call ''log_label_percentages''
             (log_label_percentages env combined_percentage_df
                ''Combined CEAS_08 and SpamAssassin (No Processing)'')) (\<lambda>_.
     bind (call ''check_missing_values''
             (check_missing_values env combined_percentage_df
                ''Combined CEAS_08 and SpamAssassin (No Processing)'')) (\<lambda>_.
     bind (emit (Info (''Data Preprocessing completed.'' @ newline))) (\<lambda>_.
     return (df_processed_spamassassin, df_processed_ceas, combined_percentage_df))))))))))))"

subsection \<open>Cleaning of the CEAS_08 sender and receiver headers\<close>

definition rows_mismatch :: string where
  "rows_mismatch = ''The number of rows in the Merged Cleaned Headers of CEAS_08 DataFrame does not match Processed CEAS_08.''"

text \<open>
  Lines 151 to 179: the row-count guard, the removal of the two header columns from the
  processed frame, the side-by-side concatenation and the count of rows with a missing
  sender or receiver. The result is the processed frame as \<open>drop\<close> left it and the merged
  frame.
\<close>

definition merge_cleaned_headers ::
  "dataframe \<Rightarrow> dataframe \<Rightarrow> ('w, dataframe \<times> dataframe) prog" where
  "merge_cleaned_headers df_cleaned_ceas_headers df_processed_ceas =
     (if len df_cleaned_ceas_headers \<noteq> len df_processed_ceas then
        bind (emit (Error rows_mismatch)) (\<lambda>_. raise (ValueError rows_mismatch))
      else
        bind (lift (drop_columns [''sender'', ''receiver''] df_processed_ceas))
          (\<lambda>df_processed_ceas.
        bind (emit (InfoCols ''Columns in df_cleaned_ceas_headers''
                      (columns df_cleaned_ceas_headers))) (\<lambda>_.
        bind (emit (InfoCols ''Columns in df_processed_ceas'' (columns df_processed_ceas)))
          (\<lambda>_.
        let df_cleaned_ceas_headers_merge =
              concat_axis1 df_cleaned_ceas_headers df_processed_ceas in
        bind (lift (missing_sender_receiver df_cleaned_ceas_headers_merge))
          (\<lambda>missing_in_cleaned_ceas_header_merged.
        bind (emit (InfoNum
                ''Number of missing rows in Merged Cleaned Headers of CEAS_08 DataFrame''
                (length missing_in_cleaned_ceas_header_merged))) (\<lambda>_.
        bind (emit (InfoNum ''Total rows in Processed CEAS_08 Dataframe''
                (len df_processed_ceas))) (\<lambda>_.
        bind (emit (InfoNum ''Total rows in Merged Cleaned Headers of CEAS_08 Dataframe''
                (len df_cleaned_ceas_headers_merge))) (\<lambda>_.
        return (df_processed_ceas, df_cleaned_ceas_headers_merge)))))))))"

text \<open>Lines 181 to 192: the second row-count check and the saving of the merged frame.\<close>

definition save_merged_headers ::
  "('w, 'o, 'x) env \<Rightarrow> (string \<rightharpoonup> string) \<Rightarrow> dataframe \<Rightarrow> dataframe \<Rightarrow> ('w, unit) prog" where
  "save_merged_headers env file_paths df_processed_ceas df_cleaned_ceas_headers_merge =
     (if len df_cleaned_ceas_headers_merge \<noteq> len df_processed_ceas then
        bind (emit (Error rows_mismatch)) (\<lambda>_. raise (ValueError (rows_mismatch @ newline)))
      else
        bind (emit (Info ''The number of rows in the Merged Cleaned Headers of CEAS_08 DataFrame matches Processed CEAS_08.'')) (\<lambda>_.
        bind (dict_get file_paths ''merged_cleaned_ceas_headers'') (\<lambda>path.
        bind (call ''to_csv'' (to_csv env df_cleaned_ceas_headers_merge path)) (\<lambda>_.
        bind (dict_get file_paths ''merged_cleaned_ceas_headers'') (\<lambda>path.
        emit (InfoPath
          ''Merged Cleaned Headers of CEAS_08 DataFrame successfully saved to'' path))))))"

definition header_cleaning ::
  "('w, 'o, 'x) env \<Rightarrow> (string \<rightharpoonup> string) \<Rightarrow> dataframe \<Rightarrow> ('w, dataframe) prog" where
  "header_cleaning env file_paths df_processed_ceas =
     bind (emit (Info ''Beginning Data Cleaning of CEAS_08 ['sender', 'receiver']...'')) (\<lambda>_.
     bind (dict_get file_paths ''cleaned_ceas_headers'') (\<lambda>path.
     bind (call ''load_or_save_emails'' (load_or_save_emails env df_processed_ceas path))
       (\<lambda>df_cleaned_ceas_headers.
     bind (emit (Info
       ''Beginning merging of Cleaned Headers of CEAS_08 with Processed CEAS_08...'')) (\<lambda>_.
     bind (merge_cleaned_headers df_cleaned_ceas_headers df_processed_ceas)
       (\<lambda>(df_processed_ceas, df_cleaned_ceas_headers_merge).
     bind (save_merged_headers env file_paths df_processed_ceas df_cleaned_ceas_headers_merge)
       (\<lambda>_.
     bind (emit (Info
       (''Data Cleaning of CEAS_08 ['sender', 'receiver'] completed.'' @ newline))) (\<lambda>_.
     return df_cleaned_ceas_headers_merge)))))))"

subsection \<open>Data integration\<close>

definition select_columns :: "string list" where
  "select_columns =
     [''sender'', ''receiver'', ''https_count'', ''http_count'', ''blacklisted_keywords_count'',
      ''short_urls'', ''has_ip_address'', ''urls'', ''body'', ''label'', ''index'']"

definition common_columns :: "string list" where
  "common_columns =
     [''sender'', ''receiver'', ''https_count'', ''http_count'', ''blacklisted_keywords_count'',
      ''short_urls'', ''has_ip_address'', ''urls'', ''body'', ''label'']"

definition data_integration ::
  "('w, 'o, 'x) env \<Rightarrow> (string \<rightharpoonup> string) \<Rightarrow> dataframe \<Rightarrow> dataframe \<Rightarrow> dataframe \<Rightarrow> dataframe
     \<Rightarrow> dataframe \<Rightarrow> ('w, dataframe) prog" where
  "data_integration env file_paths df_processed_spamassassin spamassassin_headers_df
       df_cleaned_ceas_headers_merge ceas_headers_df combined_percentage_df =
     bind (emit (Info ''Beginning Data Integration...'')) (\<lambda>_.
     bind (emit (Info
       ''Merging Processed Spam Assassin and Spam Assassin Header Dataframes...'')) (\<lambda>_.
     bind (call ''merge_dataframes''
             (merge_dataframes env df_processed_spamassassin spamassassin_headers_df ''index''
                (Some [(''text'', ''body'')]) select_columns)) (\<lambda>merged_spamassassin_df.
     bind (dict_get file_paths ''merged_spam_assassin_file'') (\<lambda>path.
     bind (call ''verify_merged_dataframe''
             (verify_merged_dataframe env merged_spamassassin_df df_processed_spamassassin
                ''Spam Assassin'' path)) (\<lambda>_.
     bind (emit (Info ''Merging Processed CEAS_08 and CEAS_08 Header Dataframes...'')) (\<lambda>_.
     bind (call ''merge_dataframes''
             (merge_dataframes env df_cleaned_ceas_headers_merge ceas_headers_df ''index''
                None select_columns)) (\<lambda>merged_ceas_df.
     bind (dict_get file_paths ''merged_ceas_file'') (\<lambda>path.
     bind (call ''verify_merged_dataframe''
             (verify_merged_dataframe env merged_ceas_df df_cleaned_ceas_headers_merge
                ''CEAS_08'' path)) (\<lambda>_.
     bind (emit (Info ''Merging Spam Assassin and CEAS_08 Dataframes...'')) (\<lambda>_.
     bind (call ''combine_dataframes''
             (combine_dataframes env merged_spamassassin_df merged_ceas_df common_columns))
       (\<lambda>combined_df.
     bind (call ''verify_combined_dataframe''
             (verify_combined_dataframe env combined_df combined_percentage_df)) (\<lambda>_.
     bind (dict_get file_paths ''merged_data_frame'') (\<lambda>path.
     bind (call ''save_combined_dataframe'' (save_combined_dataframe env combined_df path))
       (\<lambda>_.
     bind (emit (Info (''Data Integration completed.'' @ newline))) (\<lambda>_.
     return combined_df)))))))))))))))"

subsection \<open>Cleaning of the body, noise injection and splitting\<close>

definition body_cleaning ::
  "('w, 'o, 'x) env \<Rightarrow> (string \<rightharpoonup> string) \<Rightarrow> dataframe \<Rightarrow> ('w, dataframe) prog" where
  "body_cleaning env file_paths combined_df =
     bind (emit (Info ''Beginning Data Cleaning ['body']...'')) (\<lambda>_.
     bind (call ''load_or_clean_data''
             (load_or_clean_data env ''Merged Dataframe'' combined_df ''body''
                ''data_cleaning/cleaned_data_frame.csv'')) (\<lambda>df_clean_body.
     bind (call ''combine_columns_for_cleaning''
             (combine_columns_for_cleaning env combined_df df_clean_body))
       (\<lambda>df_cleaned_combined.
     bind (call ''verify_combined_dataframe''
             (verify_combined_dataframe env combined_df df_cleaned_combined)) (\<lambda>_.
     bind (dict_get file_paths ''merged_cleaned_data_frame'') (\<lambda>path.
     bind (call ''save_dataframe_to_csv'' (save_dataframe_to_csv env df_cleaned_combined path))
       (\<lambda>_.
     return df_cleaned_combined))))))"

definition noise_and_split ::
  "('w, 'o, 'x) env \<Rightarrow> dataframe \<Rightarrow> ('w, fold list) prog" where
  "noise_and_split env df_cleaned_combined =
     bind (emit (Info ''Beginning Noise Injection...'')) (\<lambda>_.
     bind (call ''generate_noisy_dataframe''
             (generate_noisy_dataframe env df_cleaned_combined
                ''noise_injection/noisy_data_frame.csv'')) (\<lambda>noisy_df.
     bind (emit (Info (''Noise Injection completed.'' @ newline))) (\<lambda>_.
     bind (emit (Info ''Beginning Data Splitting...'')) (\<lambda>_.
     bind (call ''stratified_k_fold_split'' (stratified_k_fold_split env noisy_df)) (\<lambda>folds.
     bind (emit (Info (''Data Splitting completed.'' @ newline))) (\<lambda>_.
     return folds))))))"

subsection \<open>The loop over the folds\<close>

definition categorical_columns :: "string list" where
  "categorical_columns = [''sender'', ''receiver'']"

definition numerical_columns :: "string list" where
  "numerical_columns =
     [''https_count'', ''http_count'', ''blacklisted_keywords_count'', ''urls'', ''short_urls'',
      ''has_ip_address'']"

text \<open>Lines 288 to 316: the estimators of one fold, built afresh in every iteration.\<close>

definition build_pipeline :: "('w, 'o, 'x) env \<Rightarrow> ('w, 'o estimator) prog" where
  "build_pipeline env =
     bind (call ''BERTFeatureExtractor'' (BERTFeatureExtractor env)) (\<lambda>bert_extractor.
     bind (call ''BERTFeatureTransformer'' (BERTFeatureTransformer env bert_extractor))
       (\<lambda>bert_transformer.
     bind (call ''RareCategoryRemover'' (RareCategoryRemover env (5 / 100)))
       (\<lambda>rare_cat_remover.
     let preprocessor =
           ColumnTransformer
             [(''cat'',
               Pipeline [(''rare_cat_remover'', Opaque rare_cat_remover),
                         (''imputer'', SimpleImputer ''most_frequent''),
                         (''encoder'', OneHotEncoder False ''ignore'')],
               categorical_columns),
              (''num'',
               Pipeline [(''imputer'', SimpleImputer ''mean''),
                         (''scaler'', StandardScaler)],
               numerical_columns)]
             ''passthrough'' in
     return (Pipeline [(''preprocessor'', preprocessor),
                       (''bert_features'', Opaque bert_transformer),
                       (''smote'', SMOTE 42)]))))"

text \<open>Lines 279 to 329: feature extraction and handling of the imbalance for one fold.\<close>

definition feature_extraction ::
  "('w, 'o, 'x) env \<Rightarrow> nat \<Rightarrow> fold \<Rightarrow> ('w, 'x \<times> 'x \<times> cell list \<times> cell list) prog" where
  "feature_extraction env fold_idx fold_data =
     (case fold_data of (X_train, X_test, y_train, y_test) \<Rightarrow>
        bind (emit (InfoFold ''Beginning Feature Extraction for Fold'' fold_idx)) (\<lambda>_.
        bind (build_pipeline env) (\<lambda>pipeline.
        bind (call ''run_pipeline_or_load''
                (run_pipeline_or_load env fold_idx X_train X_test y_train y_test pipeline
                   ''feature_extraction'')) (\<lambda>balanced.
        bind (emit (InfoFold ''Data for Fold has been processed or loaded successfully''
                      fold_idx)) (\<lambda>_.
        return balanced)))))"

text \<open>Lines 358 to 366: the learning curves of all the folds done so far.\<close>

fun plot_learning_curves ::
  "('w, 'o, 'x) env \<Rightarrow> ('x \<times> cell list \<times> 'o \<times> nat) list \<Rightarrow> ('w, unit) prog" where
  "plot_learning_curves env [] = return ()"
| "plot_learning_curves env ((X_train, y_train, ensemble_model, fold_idx) # rest) =
     bind (call ''plot_learning_curve''
             (plot_learning_curve env ensemble_model X_train y_train fold_idx))
       (\<lambda>_. plot_learning_curves env rest)"

text \<open>Lines 334 to 366: training and evaluation for one fold, then the plots.\<close>

definition train_and_evaluate ::
  "('w, 'o, 'x) env \<Rightarrow> 'o \<Rightarrow> nat \<Rightarrow> 'x \<times> 'x \<times> cell list \<times> cell list \<Rightarrow> real list
     \<Rightarrow> ('x \<times> cell list \<times> 'o \<times> nat) list
     \<Rightarrow> ('w, real list \<times> ('x \<times> cell list \<times> 'o \<times> nat) list) prog" where
  "train_and_evaluate env config fold_idx balanced fold_test_accuracies learning_curve_data =
     (case balanced of (X_train_balanced, X_test_combined, y_train_balanced, y_test) \<Rightarrow>
        bind (emit (InfoFold ''Beginning Model Training and Evaluation for Fold'' fold_idx))
          (\<lambda>_.
        bind (call ''get_model_path'' (get_model_path env config fold_idx)) (\<lambda>model_path.
        bind (call ''get_params_path'' (get_params_path env config fold_idx)) (\<lambda>params_path.
        bind (call ''model_training''
                (model_training env X_train_balanced y_train_balanced X_test_combined y_test
                   model_path params_path)) (\<lambda>(ensemble_model, test_accuracy).
        bind (emit (Append fold_idx)) (\<lambda>_.
        let fold_test_accuracies = fold_test_accuracies @ [test_accuracy] in
        bind (emit (InfoFold
                ''Data for Fold has been processed, model trained, and evaluated'' fold_idx))
          (\<lambda>_.
        let learning_curve_data =
              learning_curve_data @ [(X_train_balanced, y_train_balanced, ensemble_model, fold_idx)] in
        bind (plot_learning_curves env learning_curve_data) (\<lambda>_.
        return (fold_test_accuracies, learning_curve_data)))))))))"

definition fold_body ::
  "('w, 'o, 'x) env \<Rightarrow> 'o \<Rightarrow> nat \<Rightarrow> fold \<Rightarrow> real list \<Rightarrow> ('x \<times> cell list \<times> 'o \<times> nat) list
     \<Rightarrow> ('w, real list \<times> ('x \<times> cell list \<times> 'o \<times> nat) list) prog" where
  "fold_body env config fold_idx fold_data fold_test_accuracies learning_curve_data =
     bind (feature_extraction env fold_idx fold_data) (\<lambda>balanced.
     train_and_evaluate env config fold_idx balanced fold_test_accuracies learning_curve_data)"

text \<open>
  \<open>for fold_idx, (...) in enumerate(folds, start=1)\<close>: the folds in their order, the
  index counting up from its start; an exception in a fold leaves the loop.
\<close>

fun fold_loop ::
  "('w, 'o, 'x) env \<Rightarrow> 'o \<Rightarrow> nat \<Rightarrow> fold list \<Rightarrow> real list \<Rightarrow> ('x \<times> cell list \<times> 'o \<times> nat) list
     \<Rightarrow> ('w, real list \<times> ('x \<times> cell list \<times> 'o \<times> nat) list) prog" where
  "fold_loop env config fold_idx [] fold_test_accuracies learning_curve_data =
     return (fold_test_accuracies, learning_curve_data)"
| "fold_loop env config fold_idx (fold_data # rest) fold_test_accuracies learning_curve_data =
     bind (fold_body env config fold_idx fold_data fold_test_accuracies learning_curve_data)
       (\<lambda>(fold_test_accuracies, learning_curve_data).
          fold_loop env config (Suc fold_idx) rest fold_test_accuracies learning_curve_data)"

subsection \<open>The try block and main\<close>

text \<open>Lines 105 to 267 of the try block: every stage up to the splitting into folds.\<close>

definition prepare_folds ::
  "('w, 'o, 'x) env \<Rightarrow> (string \<rightharpoonup> string) \<Rightarrow> dataframe \<Rightarrow> dataframe \<Rightarrow> ('w, fold list) prog" where
  "prepare_folds env file_paths df_ceas df_spamassassin =
     bind (data_preprocessing env file_paths df_ceas df_spamassassin)
       (\<lambda>(df_processed_spamassassin, df_processed_ceas, combined_percentage_df).
     bind (emit (Info ''Beginning Feature Engineering...'')) (\<lambda>_.
     bind (call ''feature_engineering''
             (feature_engineering env df_processed_spamassassin df_processed_ceas file_paths))
       (\<lambda>(spamassassin_headers_df, ceas_headers_df).
     bind (header_cleaning env file_paths df_processed_ceas) (\<lambda>df_cleaned_ceas_headers_merge.
     bind (data_integration env file_paths df_processed_spamassassin spamassassin_headers_df
             df_cleaned_ceas_headers_merge ceas_headers_df combined_percentage_df)
       (\<lambda>combined_df.
     bind (body_cleaning env file_paths combined_df) (\<lambda>df_cleaned_combined.
     noise_and_split env df_cleaned_combined))))))"

text \<open>Lines 269 to 371: the loop over the folds and the overall test accuracy.\<close>

definition train_folds :: "('w, 'o, 'x) env \<Rightarrow> 'o \<Rightarrow> fold list \<Rightarrow> ('w, unit) prog" where
  "train_folds env config folds =
     bind (fold_loop env config 1 folds [] []) (\<lambda>(fold_test_accuracies, learning_curve_data).
     bind (emit (Info (''Training and evaluation completed for all folds.'' @ newline))) (\<lambda>_.
     emit (InfoMean (np_mean fold_test_accuracies))))"

definition try_block ::
  "('w, 'o, 'x) env \<Rightarrow> 'o \<Rightarrow> (string \<rightharpoonup> string) \<Rightarrow> dataframe \<Rightarrow> dataframe \<Rightarrow> ('w, unit) prog" where
  "try_block env config file_paths df_ceas df_spamassassin =
     bind (prepare_folds env file_paths df_ceas df_spamassassin) (\<lambda>folds.
     train_folds env config folds)"

text \<open>
  How a call of \<open>main\<close> ends: it returns (None) to its caller, or an exception leaves it.
\<close>

datatype outcome = Returned | Raised exn

definition main :: "('w, 'o, 'x) env \<Rightarrow> 'w state \<Rightarrow> outcome \<times> 'w state" where
  "main env st =
     (case load_inputs env st of
        (Inl e, st1) \<Rightarrow> (Raised e, st1)
      | (Inr (config, file_paths, df_ceas, df_spamassassin), st1) \<Rightarrow>
          (case try_block env config file_paths df_ceas df_spamassassin st1 of
             (Inr u, st2) \<Rightarrow> (Returned, st2)
           | (Inl e, st2) \<Rightarrow>
               (if is_Exception e then (Returned, st2\<lparr>trace := trace st2 @ [ErrorExn e]\<rparr>)
                else (Raised e, st2))))"

section \<open>A small concrete run\<close>

text \<open>
  Collaborators for evaluating \<open>main\<close> on a concrete input: two CEAS_08 records, two
  SpamAssassin records and two folds. The world is the list of the paths written so far.
\<close>

definition ok :: "'a \<Rightarrow> ('w, 'a) extern" where
  "ok x w = (Inr x, w)"

definition fails :: "exn \<Rightarrow> ('w, 'a) extern" where
  "fails e w = (Inl e, w)"

definition toy_paths :: "string \<rightharpoonup> string" where
  "toy_paths = map_of
     [(''ceas_08_dataset'', ''ceas.csv''),
      (''preprocessed_spam_assassin_file'', ''sa_pre.csv''),
      (''preprocessed_ceas_file'', ''ceas_pre.csv''),
      (''cleaned_ceas_headers'', ''hdr.csv''),
      (''merged_cleaned_ceas_headers'', ''hdr_merged.csv''),
      (''merged_spam_assassin_file'', ''sa_merged.csv''),
      (''merged_ceas_file'', ''ceas_merged.csv''),
      (''merged_data_frame'', ''merged.csv''),
      (''merged_cleaned_data_frame'', ''cleaned.csv'')]"

definition toy_ceas :: dataframe where
  "toy_ceas = \<lparr>columns = [''sender'', ''receiver'', ''body'', ''label'', ''index''],
     rows = [[StrV ''a@x.org'', StrV ''b@y.org'', StrV ''hello'', IntV 0, IntV 0],
             [StrV ''c@x.org'', Null, StrV ''win money'', IntV 1, IntV 1]]\<rparr>"

definition toy_spamassassin :: dataframe where
  "toy_spamassassin = \<lparr>columns = [''label'', ''group'', ''text''],
     rows = [[IntV 1, StrV ''easy_ham'', StrV ''hi''], [IntV 0, StrV ''spam'', StrV ''buy'']]\<rparr>"

definition toy_headers :: dataframe where
  "toy_headers = \<lparr>columns = [''sender'', ''receiver''],
     rows = [[StrV ''a@x.org'', StrV ''b@y.org''], [StrV ''c@x.org'', Null]]\<rparr>"

definition toy_folds :: "fold list" where
  "toy_folds =
     [(toy_ceas\<lparr>rows := [rows toy_ceas ! 0]\<rparr>, toy_ceas\<lparr>rows := [rows toy_ceas ! 1]\<rparr>, [IntV 0], [IntV 1]),
      (toy_ceas\<lparr>rows := [rows toy_ceas ! 1]\<rparr>, toy_ceas\<lparr>rows := [rows toy_ceas ! 0]\<rparr>, [IntV 1], [IntV 0])]"

definition toy_env :: "(string list, string, nat) env" where
  "toy_env =
     \<lparr>load_config = (\<lambda>p. ok ''config''),
      get_file_paths = (\<lambda>c. ok toy_paths),
      read_csv = (\<lambda>p. ok toy_ceas),
      load_dataset = (\<lambda>n s. ok toy_spamassassin),
      process_dataset = (\<lambda>df c n p w. (Inr df, w @ [p])),
      log_label_percentages = (\<lambda>df n. ok ()),
      check_missing_values = (\<lambda>df n. ok ()),
      feature_engineering = (\<lambda>a b f. ok (a, b)),
      load_or_save_emails = (\<lambda>df p w. (Inr toy_headers, w @ [p])),
      to_csv = (\<lambda>df p w. (Inr (), w @ [p])),
      merge_dataframes = (\<lambda>a b on ren sel. ok a),
      verify_merged_dataframe = (\<lambda>m r n p w. (if len m = len r then (Inr (), w @ [p]) else (Inl (ValueError n), w))),
      combine_dataframes = (\<lambda>a b cs. ok (pd_concat a b)),
      verify_combined_dataframe = (\<lambda>a b. if len a = len b then ok () else fails (ValueError ''combined'')),
      save_combined_dataframe = (\<lambda>df p w. (Inr (), w @ [p])),
      load_or_clean_data = (\<lambda>n df c p w. (Inr df, w @ [p])),
      combine_columns_for_cleaning = (\<lambda>a b. ok a),
      save_dataframe_to_csv = (\<lambda>df p w. (Inr (), w @ [p])),
      generate_noisy_dataframe = (\<lambda>df p w. (Inr df, w @ [p])),
      stratified_k_fold_split = (\<lambda>df. ok toy_folds),
      BERTFeatureExtractor = ok ''bert'',
      BERTFeatureTransformer = (\<lambda>b. ok ''bert_transformer''),
      RareCategoryRemover = (\<lambda>t. ok ''rare''),
      run_pipeline_or_load = (\<lambda>i xtr xte ytr yte pl d. ok (len xtr, len xte, ytr, yte)),
      get_model_path = (\<lambda>c i. ok ''model''),
      get_params_path = (\<lambda>c i. ok ''params''),
      model_training = (\<lambda>xb yb xt yt mp pp. ok (''model'', 1)),
      plot_learning_curve = (\<lambda>m x y i. ok ())\<rparr>"

definition st0 :: "string list state" where
  "st0 = \<lparr>world = [], trace = []\<rparr>"

text \<open>The same run with no CEAS_08 file to read, and with a model fit that fails.\<close>

definition toy_missing_csv :: "(string list, string, nat) env" where
  "toy_missing_csv = toy_env\<lparr>read_csv := (\<lambda>p. fails (OtherException ''FileNotFoundError''))\<rparr>"

definition toy_bad_training :: "(string list, string, nat) env" where
  "toy_bad_training =
     toy_env\<lparr>model_training := (\<lambda>xb yb xt yt mp pp. fails (ValueError ''one class''))\<rparr>"

definition st_loaded :: "string list state" where
  "st_loaded =
     \<lparr>world = [],
      trace = [Call ''load_config'', Done ''load_config'', Call ''get_file_paths'',
               Done ''get_file_paths'', Call ''read_csv'', Done ''read_csv'',
               Call ''load_dataset'', Done ''load_dataset'']\<rparr>"

text \<open>The same two CEAS_08 records in the other order.\<close>

definition toy_ceas_reordered :: dataframe where
  "toy_ceas_reordered = toy_ceas\<lparr>rows := rev (rows toy_ceas)\<rparr>"

text \<open>What lines 151 to 179 make of the two CEAS_08 records and their cleaned headers.\<close>

definition toy_ceas_dropped :: dataframe where
  "toy_ceas_dropped =
     \<lparr>columns = [''body'', ''label'', ''index''],
      rows = [[StrV ''hello'', IntV 0, IntV 0], [StrV ''win money'', IntV 1, IntV 1]]\<rparr>"

definition toy_merged :: dataframe where
  "toy_merged =
     \<lparr>columns = [''sender'', ''receiver'', ''body'', ''label'', ''index''],
      rows = [[StrV ''a@x.org'', StrV ''b@y.org'', StrV ''hello'', IntV 0, IntV 0],
              [StrV ''c@x.org'', Null, StrV ''win money'', IntV 1, IntV 1]]\<rparr>"

definition st_merged :: "string list state" where
  "st_merged =
     \<lparr>world = [],
      trace =
        [InfoCols ''Columns in df_cleaned_ceas_headers'' [''sender'', ''receiver''],
         InfoCols ''Columns in df_processed_ceas'' [''body'', ''label'', ''index''],
         InfoNum ''Number of missing rows in Merged Cleaned Headers of CEAS_08 DataFrame'' 1,
         InfoNum ''Total rows in Processed CEAS_08 Dataframe'' 2,
         InfoNum ''Total rows in Merged Cleaned Headers of CEAS_08 Dataframe'' 2]\<rparr>"

text \<open>A merge that knows no join key but \<open>index\<close>.\<close>

definition toy_merge_on_index ::
  "dataframe \<Rightarrow> dataframe \<Rightarrow> string \<Rightarrow> (string \<times> string) list option \<Rightarrow> string list
     \<Rightarrow> (string list, dataframe) extern" where
  "toy_merge_on_index a b on_column rename_columns selected =
     (if on_column = ''index'' then ok a else fails (KeyError on_column))"

section \<open>Reading a frame by the index key\<close>

text \<open>
  The cell of column \<open>c\<close> in the first row whose \<open>index\<close> cell is \<open>k\<close>: what a table
  says about the record with that key.
\<close>

definition lookup_by_index :: "dataframe \<Rightarrow> int \<Rightarrow> string \<Rightarrow> cell option" where
  "lookup_by_index df k c =
     (case (col_index ''index'' (columns df), col_index c (columns df)) of
        (Some i, Some j) \<Rightarrow>
          (case filter (\<lambda>r. cell_at r i = IntV k) (rows df) of
             [] \<Rightarrow> None
           | r # _ \<Rightarrow> Some (cell_at r j))
      | _ \<Rightarrow> None)"

text \<open>
  The sender that lines 151 to 179 attach to the record with key \<open>k\<close>, given the cleaned
  headers and the processed frame.
\<close>

definition attached_sender :: "dataframe \<Rightarrow> dataframe \<Rightarrow> int \<Rightarrow> cell option" where
  "attached_sender hdr proc k =
     (case fst (merge_cleaned_headers hdr proc st0) of
        Inl e \<Rightarrow> None
      | Inr (proc', merged) \<Rightarrow> lookup_by_index merged k ''sender'')"

fun is_overall_accuracy :: "event \<Rightarrow> bool" where
  "is_overall_accuracy (InfoMean m) = True"
| "is_overall_accuracy ev = False"

section \<open>The order of the steps of the loop\<close>

text \<open>
  The steps of fold \<open>i\<close> that the ordering is about, in the order in which the
  specification wants them: the fold begins, the feature-extraction step is entered and
  left, the training is entered and left, the accuracy of the fold is appended.
\<close>

definition fold_steps :: "nat \<Rightarrow> event list" where
  "fold_steps i =
     [InfoFold ''Beginning Feature Extraction for Fold'' i,
      Call ''run_pipeline_or_load'', Done ''run_pipeline_or_load'',
      Call ''model_training'', Done ''model_training'',
      Append i]"

fun is_step :: "event \<Rightarrow> bool" where
  "is_step (Call name) = (name = ''run_pipeline_or_load'' \<or> name = ''model_training'')"
| "is_step (Done name) = (name = ''run_pipeline_or_load'' \<or> name = ''model_training'')"
| "is_step (InfoFold msg i) = (msg = ''Beginning Feature Extraction for Fold'')"
| "is_step (Append i) = True"
| "is_step ev = False"

section \<open>The feature cache\<close>

text \<open>
  Modelled from the spec: \<open>run_pipeline_or_load\<close> of the package
  \<open>spamandphishingdetection\<close>, which is not among the sources. Section 4.4 of the
  specification: a cache key is computed from the fold index and the cache directory; if
  all four artifact files exist at that key they are loaded and returned and the pipeline
  is bypassed; otherwise the full feature-extraction pipeline is run, each of its four
  outputs is persisted, and they are returned.

  The world is the cache directory tree (a file is addressed by directory, fold index and
  artifact name; feature matrices and label vectors are kept apart) together with a count
  of the runs of the pipeline, which is the embedding extraction and the oversampling.
  The pipeline is a function that may raise.
\<close>

text \<open>Modelled from the spec: the address of an artifact file (cache directory, fold index, artifact name), section 4.4.\<close>

type_synonym cache_path = "string \<times> nat \<times> string"

text \<open>Modelled from the spec: the cache directory and the number of pipeline runs so far, section 4.4.\<close>

record 'x cache_world =
  feature_files :: "cache_path \<rightharpoonup> 'x"
  label_files :: "cache_path \<rightharpoonup> cell list"
  pipeline_runs :: nat

text \<open>Modelled from the spec: the four artifacts of a fold (X_train_balanced, X_test_combined, y_train_balanced, y_test), section 3.\<close>

type_synonym 'x fitted = "'x \<times> 'x \<times> cell list \<times> cell list"

text \<open>Modelled from the spec: load the four artifacts when all four files exist, else run the pipeline and persist each output, section 4.4.\<close>

definition run_pipeline_or_load_spec ::
  "nat \<Rightarrow> dataframe \<Rightarrow> dataframe \<Rightarrow> cell list \<Rightarrow> cell list
     \<Rightarrow> (dataframe \<Rightarrow> dataframe \<Rightarrow> cell list \<Rightarrow> cell list \<Rightarrow> exn + 'x fitted) \<Rightarrow> string
     \<Rightarrow> ('x cache_world, 'x fitted) extern" where
  "run_pipeline_or_load_spec fold_idx X_train X_test y_train y_test pipeline dir w =
     (case (feature_files w (dir, fold_idx, ''X_train_balanced''),
            feature_files w (dir, fold_idx, ''X_test_combined''),
            label_files w (dir, fold_idx, ''y_train_balanced''),
            label_files w (dir, fold_idx, ''y_test'')) of
        (Some X_train_balanced, Some X_test_combined, Some y_train_balanced, Some y_test_loaded) \<Rightarrow>
          (Inr (X_train_balanced, X_test_combined, y_train_balanced, y_test_loaded), w)
      | _ \<Rightarrow>
          (case pipeline X_train X_test y_train y_test of
             Inl e \<Rightarrow> (Inl e, w\<lparr>pipeline_runs := Suc (pipeline_runs w)\<rparr>)
           | Inr (X_train_balanced, X_test_combined, y_train_balanced, y_test_out) \<Rightarrow>
               (Inr (X_train_balanced, X_test_combined, y_train_balanced, y_test_out),
                w\<lparr>feature_files := (feature_files w)
                     ((dir, fold_idx, ''X_train_balanced'') \<mapsto> X_train_balanced,
                      (dir, fold_idx, ''X_test_combined'') \<mapsto> X_test_combined),
                  label_files := (label_files w)
                     ((dir, fold_idx, ''y_train_balanced'') \<mapsto> y_train_balanced,
                      (dir, fold_idx, ''y_test'') \<mapsto> y_test_out),
                  pipeline_runs := Suc (pipeline_runs w)\<rparr>)))"

text \<open>Whether the four artifact files of a fold exist.\<close>

definition cached :: "'x cache_world \<Rightarrow> string \<Rightarrow> nat \<Rightarrow> bool" where
  "cached w dir fold_idx =
     (feature_files w (dir, fold_idx, ''X_train_balanced'') \<noteq> None \<and>
      feature_files w (dir, fold_idx, ''X_test_combined'') \<noteq> None \<and>
      label_files w (dir, fold_idx, ''y_train_balanced'') \<noteq> None \<and>
      label_files w (dir, fold_idx, ''y_test'') \<noteq> None)"

text \<open>An empty cache, and a pipeline that turns a frame into its number of rows.\<close>

definition empty_cache :: "nat cache_world" where
  "empty_cache = \<lparr>feature_files = Map.empty, label_files = Map.empty, pipeline_runs = 0\<rparr>"

definition toy_pipeline ::
  "dataframe \<Rightarrow> dataframe \<Rightarrow> cell list \<Rightarrow> cell list \<Rightarrow> exn + nat fitted" where
  "toy_pipeline X_train X_test y_train y_test = Inr (len X_train, len X_test, y_train, y_test)"

definition broken_pipeline ::
  "dataframe \<Rightarrow> dataframe \<Rightarrow> cell list \<Rightarrow> cell list \<Rightarrow> exn + nat fitted" where
  "broken_pipeline X_train X_test y_train y_test = Inl (OtherException ''no model'')"

definition toy_X_train :: dataframe where
  "toy_X_train = toy_ceas\<lparr>rows := [rows toy_ceas ! 0]\<rparr>"

definition toy_X_test :: dataframe where
  "toy_X_test = toy_ceas\<lparr>rows := [rows toy_ceas ! 1]\<rparr>"

definition cache_after_fold_1 :: "nat cache_world" where
  "cache_after_fold_1 =
     snd (run_pipeline_or_load_spec 1 toy_X_train toy_X_test [IntV 0] [IntV 1] toy_pipeline
            ''feature_extraction'' empty_cache)"

section \<open>The feature-extraction pipeline of a fold\<close>

text \<open>
  Modelled from the spec: the execution of the pipeline that \<open>main\<close> composes (fitting,
  transforming, oversampling), which happens inside \<open>run_pipeline_or_load\<close> and is not
  among the sources. Section 4.3 of the specification: the transformer is fitted on the
  training split only and applied, never refitted, to both splits; the combined matrix is
  then rebalanced: synthetic minority-class vectors are generated by interpolation between
  same-class neighbours until both classes are equal, in the training split only; the test
  split is transformed but never oversampled.

  The fitting (\<open>fit\<close>), the fitted transformation of one row (\<open>transform\<close>, which fails
  on a row it cannot handle) and the interpolation (\<open>interpolate\<close>, floating-point
  arithmetic on the minority samples) are parameters. Where the specification is silent
  the model raises: a label that is neither 0 nor 1, a class without a sample to
  interpolate from, and a label vector of another length than the matrix.
\<close>


text \<open>Modelled from the spec: the number of records of a class, section 8.\<close>

definition count_label :: "int \<Rightarrow> cell list \<Rightarrow> nat" where
  "count_label c y = length (filter (\<lambda>l. l = IntV c) y)"








section \<open>The splitting into folds\<close>

text \<open>
  Modelled from the spec: \<open>stratified_k_fold_split\<close> of the package
  \<open>spamandphishingdetection\<close>, which is not among the sources. Section 4.2 of the
  specification: the indices are partitioned into \<open>k\<close> groups such that each group
  preserves, within rounding, the global class ratio; for fold \<open>i\<close>, group \<open>i\<close> is held
  out as test and the remaining \<open>k - 1\<close> groups are the training part; the split is
  deterministic given the random seed.

  The records are addressed by their row positions. The positions of each class are
  shuffled by a function of the seed (the random number generator, a parameter) and dealt
  out to the \<open>k\<close> groups in turn, so that the sizes of the groups differ by at most one
  within every class.
\<close>

text \<open>Modelled from the spec: the indices of the records of one class, section 4.2.\<close>

definition positions_of :: "cell \<Rightarrow> cell list \<Rightarrow> nat list" where
  "positions_of c y = filter (\<lambda>i. y ! i = c) [0 ..< length y]"

text \<open>Modelled from the spec: group g of k takes every k-th member, which keeps the class ratio within rounding, section 4.2.\<close>

definition every_kth :: "nat \<Rightarrow> nat \<Rightarrow> 'a list \<Rightarrow> 'a list" where
  "every_kth k g zs = map (\<lambda>j. zs ! j) (filter (\<lambda>j. j mod k = g) [0 ..< length zs])"

text \<open>Modelled from the spec: group g, held out as the test part of fold g, section 4.2.\<close>

definition test_indices ::
  "(nat list \<Rightarrow> nat list) \<Rightarrow> nat \<Rightarrow> cell list \<Rightarrow> nat \<Rightarrow> nat list" where
  "test_indices shuffled k y g =
     sort (concat (map (\<lambda>c. every_kth k g (shuffled (positions_of c y))) (remdups y)))"

text \<open>Modelled from the spec: the remaining k - 1 groups, the training part of fold g, section 4.2.\<close>

definition train_indices ::
  "(nat list \<Rightarrow> nat list) \<Rightarrow> nat \<Rightarrow> cell list \<Rightarrow> nat \<Rightarrow> nat list" where
  "train_indices shuffled k y g =
     filter (\<lambda>i. i \<notin> set (test_indices shuffled k y g)) [0 ..< length y]"

text \<open>Modelled from the spec: the rows of a frame at the given indices, section 4.2.\<close>

definition select_rows :: "nat list \<Rightarrow> dataframe \<Rightarrow> dataframe" where
  "select_rows idx df = df\<lparr>rows := map (\<lambda>i. rows df ! i) idx\<rparr>"

text \<open>Modelled from the spec: the labels of the records, section 4.2.\<close>

definition label_column :: "nat \<Rightarrow> dataframe \<Rightarrow> cell list" where
  "label_column j df = map (\<lambda>r. cell_at r j) (rows df)"

text \<open>Modelled from the spec: the sequence of the k folds (X_train, X_test, y_train, y_test), section 4.2.\<close>

definition stratified_k_fold_split_spec ::
  "(nat \<Rightarrow> nat list \<Rightarrow> nat list) \<Rightarrow> nat \<Rightarrow> nat \<Rightarrow> dataframe \<Rightarrow> exn + fold list" where
  "stratified_k_fold_split_spec shuffle seed k df =
     (case col_index ''label'' (columns df) of
        None \<Rightarrow> Inl (KeyError ''label'')
      | Some j \<Rightarrow>
          (let y = label_column j df in
           Inr (map (\<lambda>g.
                  (let train = train_indices (shuffle seed) k y g;
                       test = test_indices (shuffle seed) k y g
                   in (select_rows train df, select_rows test df,
                       map (\<lambda>i. y ! i) train, map (\<lambda>i. y ! i) test)))
                [0 ..< k])))"

text \<open>A shuffle by rotation, and five records of two classes.\<close>

definition toy_shuffle :: "nat \<Rightarrow> nat list \<Rightarrow> nat list" where
  "toy_shuffle seed xs = rotate seed xs"

definition toy_five :: dataframe where
  "toy_five =
     \<lparr>columns = [''body'', ''label''],
      rows = [[StrV ''a'', IntV 0], [StrV ''b'', IntV 1], [StrV ''c'', IntV 0],
              [StrV ''d'', IntV 1], [StrV ''e'', IntV 0]]\<rparr>"

section \<open>Merging and its verification\<close>

text \<open>
  Modelled from the spec: \<open>merge_dataframes\<close> and \<open>verify_merged_dataframe\<close> of the
  package \<open>spamandphishingdetection\<close>, which are not among the sources. Section 4.1 of
  the specification: the merge joins a base table with a header-feature table on the
  index column, applies an optional map of column renamings and keeps an explicit
  allow-list of output columns; the column set of the result is the allow-list together
  with the join key (section 8). The verification compares the row counts of the merged
  and the reference table and raises on a mismatch; it persists the merged table to a
  fixed path.

  The join is the inner join on the key: a base row is paired with every feature row of
  the same key, so a missing feature row loses the base row and the verification fails.
  Keeping a column that the joined table lacks is a KeyError. The verification is given
  the merged table and the reference table only (lines 211 and 222 of \<open>main\<close>), whose
  columns differ by design; it compares the numbers of rows.
\<close>









definition toy_features_short :: dataframe where
  "toy_features_short = \<lparr>columns = [''index'', ''urls''], rows = [[IntV 1, IntV 3]]\<rparr>"



section \<open>Properties of main\<close>

lemmas prog_defs = return_def raise_def bind_def emit_def call_def dict_get_def lift_def

lemmas stage_defs = main_def load_inputs_def try_block_def prepare_folds_def train_folds_def
  data_preprocessing_def
  header_cleaning_def merge_cleaned_headers_def save_merged_headers_def data_integration_def
  body_cleaning_def noise_and_split_def fold_body_def feature_extraction_def build_pipeline_def
  train_and_evaluate_def

lemmas pandas_defs = map_column_def label_swap_def map_value_def cell_at_def len_def
  drop_columns_def concat_axis1_def pad_rows_def pd_concat_def missing_sender_receiver_def
  isnull_def np_mean_def newline_def rows_mismatch_def

lemmas toy_defs = ok_def fails_def toy_paths_def toy_ceas_def toy_spamassassin_def
  toy_headers_def toy_folds_def toy_env_def st0_def

lemma toy_bad_training_loads:
  "load_inputs toy_bad_training st0 =
     (Inr (''config'', toy_paths, toy_ceas, toy_spamassassin), st_loaded)"
  by (simp add: load_inputs_def prog_defs ok_def fails_def toy_env_def st0_def toy_paths_def
      toy_bad_training_def st_loaded_def)

lemma toy_bad_training_try:
  "\<exists>st2. try_block toy_bad_training ''config'' toy_paths toy_ceas toy_spamassassin st_loaded =
           (Inl (ValueError ''one class''), st2) \<and>
         InfoFold ''Beginning Feature Extraction for Fold'' 2 \<notin> set (trace st2) \<and>
         (\<forall>m. InfoMean m \<notin> set (trace st2)) \<and>
         Call ''model_training'' \<in> set (trace st2) \<and>
         Done ''model_training'' \<notin> set (trace st2)"
  by (simp add: stage_defs pandas_defs prog_defs toy_defs toy_bad_training_def st_loaded_def)

lemma toy_bad_training_prepare:
  "\<exists>st2. prepare_folds toy_bad_training toy_paths toy_ceas toy_spamassassin st_loaded =
           (Inr toy_folds, st2)"
  by (simp add: stage_defs pandas_defs prog_defs ok_def fails_def toy_paths_def toy_ceas_def toy_spamassassin_def
  toy_headers_def toy_env_def  toy_bad_training_def
  st_loaded_def)

lemma toy_bad_training_extract:
  "\<exists>st4. feature_extraction toy_bad_training 1 (toy_folds ! 0) st = (Inr (1, 1, [IntV 0], [IntV 1]), st4)"
  by (simp add: feature_extraction_def build_pipeline_def pandas_defs prog_defs toy_defs
      toy_bad_training_def)


subsection \<open>The SpamAssassin labels\<close>

text \<open>
  C10. Line 111 maps the SpamAssassin labels through the dictionary \<open>{1: 0, 0: 1}\<close>: for a
  frame with a label column the assignment raises nothing and keeps the rows and the column
  names, label 1 becomes 0, label 0 becomes 1, and every other label (another number, a
  string, a missing value) becomes the missing value, so a label outside 0 and 1 leaves
  the step as a label that is neither 0 nor 1.
\<close>

theorem label_map_swaps_and_nulls:
  assumes "col_index ''label'' (columns df) = Some i" and "k < len df"
      and "i < length (rows df ! k)"
  shows "\<exists>df'. map_column ''label'' label_swap df = Inr df' \<and> len df' = len df \<and>
           columns df' = columns df \<and>
           cell_at (rows df' ! k) i =
             (case cell_at (rows df ! k) i of
                IntV l \<Rightarrow> if l = 1 then IntV 0 else if l = 0 then IntV 1 else Null
              | _ \<Rightarrow> Null)"
  using assms
  by (auto simp: map_column_def len_def cell_at_def map_value_def label_swap_def
      split: cell.splits)

theorem label_map_swaps_and_nulls_witness:
  "\<exists>df'. map_column ''label'' label_swap
       \<lparr>columns = [''label'', ''text''], rows = [[IntV 2, StrV ''hi'']]\<rparr> = Inr df' \<and>
     rows df' = [[Null, StrV ''hi'']]"
  using label_map_swaps_and_nulls
    [of "\<lparr>columns = [''label'', ''text''], rows = [[IntV 2, StrV ''hi'']]\<rparr>" 0 0]
  by (auto simp: map_column_def len_def cell_at_def map_value_def label_swap_def)

subsection \<open>The top-level handler\<close>

text \<open>
  C7, as the code has it. The try block of \<open>main\<close> begins after the configuration and the
  two data sets have been loaded. Once loading has succeeded, an exception of class
  \<open>Exception\<close> raised anywhere in the try block is logged with its message and \<open>main\<close>
  returns; a run that completes returns as well; and no exception of class \<open>Exception\<close>
  leaves \<open>main\<close>.
\<close>

theorem main_catches_inside_try:
  assumes "load_inputs env st = (Inr (config, file_paths, df_ceas, df_spamassassin), st1)"
      and "try_block env config file_paths df_ceas df_spamassassin st1 = (r, st2)"
  shows "(\<forall>e. r = Inl e \<and> is_Exception e \<longrightarrow>
             main env st = (Returned, st2\<lparr>trace := trace st2 @ [ErrorExn e]\<rparr>)) \<and>
         (\<forall>u. r = Inr u \<longrightarrow> main env st = (Returned, st2)) \<and>
         (\<forall>e st'. main env st = (Raised e, st') \<longrightarrow> \<not> is_Exception e)"
  using assms by (cases r) (auto simp: main_def)

theorem main_catches_inside_try_witness:
  "fst (main toy_bad_training st0) = Returned \<and>
   last (trace (snd (main toy_bad_training st0))) = ErrorExn (ValueError ''one class'')"
proof -
  obtain st2 where t: "try_block toy_bad_training ''config'' toy_paths toy_ceas
      toy_spamassassin st_loaded = (Inl (ValueError ''one class''), st2)"
    using toy_bad_training_try by blast
  from main_catches_inside_try [OF toy_bad_training_loads t]
  have "main toy_bad_training st0 =
      (Returned, st2\<lparr>trace := trace st2 @ [ErrorExn (ValueError ''one class'')]\<rparr>)"
    by simp
  then show ?thesis by simp
qed

text \<open>
  C7 as the specification states it fails: when the CEAS_08 file cannot be read, the
  exception is raised before the try block and leaves \<open>main\<close>.
\<close>

theorem main_error_while_loading_counterexample:
  "main toy_missing_csv st0 =
     (Raised (OtherException ''FileNotFoundError''),
      \<lparr>world = [], trace = [Call ''load_config'', Done ''load_config'', Call ''get_file_paths'',
         Done ''get_file_paths'', Call ''read_csv'']\<rparr>) \<and>
   is_Exception (OtherException ''FileNotFoundError'')"
  by (simp add: main_def load_inputs_def prog_defs toy_defs toy_missing_csv_def)

subsection \<open>The order of the folds and of the steps within a fold\<close>

lemma plot_steps:
  "plot_learning_curves env lcd st = (r, st') \<Longrightarrow>
     \<exists>new. trace st' = trace st @ new \<and> filter is_step new = []"
proof (induction lcd arbitrary: st)
  case Nil
  then show ?case by (auto simp: return_def)
next
  case (Cons d lcd)
  obtain X y m i where d: "d = (X, y, m, i)" by (cases d) auto
  show ?case
  proof (cases "plot_learning_curve env m X y i (world st)")
    case (Pair r1 w1)
    show ?thesis
    proof (cases r1)
      case (Inl e)
      with Pair Cons.prems d show ?thesis by (auto simp: bind_def call_def)
    next
      case (Inr u)
      with Pair Cons.prems d
      have "plot_learning_curves env lcd
              \<lparr>world = w1, trace = trace st @ [Call ''plot_learning_curve'', Done ''plot_learning_curve'']\<rparr>
            = (r, st')"
        by (auto simp: bind_def call_def)
      from Cons.IH [OF this] show ?thesis by auto
    qed
  qed
qed

lemma feature_extraction_steps:
  "feature_extraction env i fd st = (r, st') \<Longrightarrow>
     \<exists>new. trace st' = trace st @ new \<and>
       (case r of
          Inr b \<Rightarrow> filter is_step new = take 3 (fold_steps i)
        | Inl e \<Rightarrow> filter is_step new = take 1 (fold_steps i) \<or>
                   filter is_step new = take 2 (fold_steps i))"
  by (cases fd)
     (auto simp: feature_extraction_def build_pipeline_def prog_defs fold_steps_def
           split: prod.splits sum.splits)


lemma train_and_evaluate_steps:
  assumes "train_and_evaluate env config i b accs lcd st = (r, st')"
  shows "\<exists>new. trace st' = trace st @ new \<and>
       (case r of
          Inr (accs', lcd') \<Rightarrow> filter is_step new = drop 3 (fold_steps i) \<and>
             length accs' = Suc (length accs) \<and> length lcd' = Suc (length lcd)
        | Inl e \<Rightarrow> prefix (filter is_step new) (drop 3 (fold_steps i)))"
proof -
  obtain Xb Xt yb yt where b: "b = (Xb, Xt, yb, yt)" by (cases b) auto
  show ?thesis
    using assms unfolding b train_and_evaluate_def
    by (auto simp: prog_defs fold_steps_def Let_def
          split: prod.splits sum.splits dest!: plot_steps)
qed


lemma fold_body_steps:
  assumes "fold_body env config i fd accs lcd st = (r, st')"
  shows "\<exists>new. trace st' = trace st @ new \<and>
       (case r of
          Inr (accs', lcd') \<Rightarrow> filter is_step new = fold_steps i \<and>
             length accs' = Suc (length accs)
        | Inl e \<Rightarrow> prefix (filter is_step new) (fold_steps i))"
proof (cases "feature_extraction env i fd st")
  case (Pair r1 st1)
  from feature_extraction_steps [OF Pair] obtain new1 where
    n1: "trace st1 = trace st @ new1" and
    c1: "case r1 of Inr b \<Rightarrow> filter is_step new1 = take 3 (fold_steps i)
         | Inl e \<Rightarrow> filter is_step new1 = take 1 (fold_steps i) \<or>
                    filter is_step new1 = take 2 (fold_steps i)"
    by blast
  show ?thesis
  proof (cases r1)
    case (Inl e)
    with Pair assms have "r = Inl e" "st' = st1" by (auto simp: fold_body_def bind_def)
    moreover from c1 Inl have "prefix (filter is_step new1) (fold_steps i)"
      by (auto simp: take_is_prefix)
    ultimately show ?thesis using n1 by auto
  next
    case (Inr b)
    with Pair assms have t: "train_and_evaluate env config i b accs lcd st1 = (r, st')"
      by (auto simp: fold_body_def bind_def)
    from train_and_evaluate_steps [OF t] obtain new2 where
      n2: "trace st' = trace st1 @ new2" and
      c2: "case r of
             Inr (accs', lcd') \<Rightarrow> filter is_step new2 = drop 3 (fold_steps i) \<and>
               length accs' = Suc (length accs) \<and> length lcd' = Suc (length lcd)
           | Inl e \<Rightarrow> prefix (filter is_step new2) (drop 3 (fold_steps i))"
      by blast
    from c1 Inr have f1: "filter is_step new1 = take 3 (fold_steps i)" by simp
    have split3: "take 3 (fold_steps i) @ drop 3 (fold_steps i) = fold_steps i"
      by (rule append_take_drop_id)
    have "trace st' = trace st @ (new1 @ new2)" using n1 n2 by simp
    moreover have "case r of
          Inr (accs', lcd') \<Rightarrow> filter is_step (new1 @ new2) = fold_steps i \<and>
             length accs' = Suc (length accs)
        | Inl e \<Rightarrow> prefix (filter is_step (new1 @ new2)) (fold_steps i)"
    proof (cases r)
      case (Inl e)
      with c2 have "prefix (filter is_step new2) (drop 3 (fold_steps i))" by simp
      then have "prefix (take 3 (fold_steps i) @ filter is_step new2)
                   (take 3 (fold_steps i) @ drop 3 (fold_steps i))"
        by (simp only: same_prefix_prefix)
      then have "prefix (filter is_step (new1 @ new2)) (fold_steps i)"
        using f1 by (simp only: split3 filter_append)
      with Inl show ?thesis by simp
    next
      case (Inr p)
      with c2 f1 split3 show ?thesis by (cases p) auto
    qed
    ultimately show ?thesis by blast
  qed
qed

lemma fold_loop_steps:
  "fold_loop env config k folds accs lcd st = (r, st') \<Longrightarrow>
     \<exists>new. trace st' = trace st @ new \<and>
       (case r of
          Inr (accs', lcd') \<Rightarrow>
            filter is_step new = concat (map fold_steps [k ..< k + length folds]) \<and>
            length accs' = length accs + length folds
        | Inl e \<Rightarrow>
            prefix (filter is_step new) (concat (map fold_steps [k ..< k + length folds])))"
proof (induction folds arbitrary: k accs lcd st)
  case Nil
  then show ?case by (auto simp: return_def)
next
  case (Cons fd folds)
  have range: "[k ..< k + length (fd # folds)] = k # [Suc k ..< Suc k + length folds]"
    by (subst upt_rec) simp
  obtain r1 st1 where b: "fold_body env config k fd accs lcd st = (r1, st1)"
    by (cases "fold_body env config k fd accs lcd st") auto
  from fold_body_steps [OF b] obtain new1 where
    n1: "trace st1 = trace st @ new1" and
    c1: "case r1 of
           Inr (accs', lcd') \<Rightarrow> filter is_step new1 = fold_steps k \<and>
             length accs' = Suc (length accs)
         | Inl e \<Rightarrow> prefix (filter is_step new1) (fold_steps k)"
    by blast
  show ?case
  proof (cases r1)
    case (Inl e)
    with b Cons.prems have "r = Inl e" "st' = st1" by (auto simp: bind_def)
    moreover from c1 Inl
    have "prefix (filter is_step new1) (concat (map fold_steps [k ..< k + length (fd # folds)]))"
      unfolding range by (simp add: prefix_def) (metis append.assoc)
    ultimately show ?thesis using n1 by auto
  next
    case (Inr p)
    obtain accs1 lcd1 where p: "p = (accs1, lcd1)" by (cases p) auto
    from b Cons.prems Inr p
    have l: "fold_loop env config (Suc k) folds accs1 lcd1 st1 = (r, st')"
      by (auto simp: bind_def)
    from Cons.IH [OF l] obtain new2 where
      n2: "trace st' = trace st1 @ new2" and
      c2: "case r of
             Inr (accs', lcd') \<Rightarrow>
               filter is_step new2 = concat (map fold_steps [Suc k ..< Suc k + length folds]) \<and>
               length accs' = length accs1 + length folds
           | Inl e \<Rightarrow>
               prefix (filter is_step new2)
                 (concat (map fold_steps [Suc k ..< Suc k + length folds]))"
      by blast
    from c1 Inr p have f1: "filter is_step new1 = fold_steps k"
      and la: "length accs1 = Suc (length accs)" by auto
    have "trace st' = trace st @ (new1 @ new2)" using n1 n2 by simp
    moreover have "case r of
          Inr (accs', lcd') \<Rightarrow>
            filter is_step (new1 @ new2) =
              concat (map fold_steps [k ..< k + length (fd # folds)]) \<and>
            length accs' = length accs + length (fd # folds)
        | Inl e \<Rightarrow>
            prefix (filter is_step (new1 @ new2))
              (concat (map fold_steps [k ..< k + length (fd # folds)]))"
      using c2 f1 la unfolding range by (cases r) auto
    ultimately show ?thesis by blast
  qed
qed

text \<open>
  C9. The loop of \<open>main\<close> (entered with the index 1) adds to the trace, as far as the steps
  of the folds go, exactly the steps of fold 1, then those of fold 2, and so on up to the
  last fold, each fold in the order: begin, feature extraction entered and left, training
  entered and left, accuracy appended. A run that an exception cuts short has done an
  initial part of that sequence.
\<close>

theorem folds_in_order:
  assumes "train_folds env config folds st = (r, st')"
  shows "\<exists>new. trace st' = trace st @ new \<and>
           prefix (filter is_step new) (concat (map fold_steps [1 ..< Suc (length folds)])) \<and>
           (\<forall>u. r = Inr u \<longrightarrow>
              filter is_step new = concat (map fold_steps [1 ..< Suc (length folds)]))"
proof -
  obtain r1 st1 where l: "fold_loop env config 1 folds [] [] st = (r1, st1)"
    by (cases "fold_loop env config 1 folds [] [] st") auto
  from fold_loop_steps [OF l] obtain new1 where
    n1: "trace st1 = trace st @ new1" and
    c1: "case r1 of
           Inr (accs', lcd') \<Rightarrow>
             filter is_step new1 = concat (map fold_steps [1 ..< 1 + length folds]) \<and>
             length accs' = length ([] :: real list) + length folds
         | Inl e \<Rightarrow>
             prefix (filter is_step new1) (concat (map fold_steps [1 ..< 1 + length folds]))"
    by blast
  show ?thesis
  proof (cases r1)
    case (Inl e)
    with l assms have "r = Inl e" "st' = st1" by (auto simp: train_folds_def bind_def)
    with c1 Inl n1 show ?thesis by auto
  next
    case (Inr p)
    with l assms c1 n1 show ?thesis
      by (cases p) (auto simp: train_folds_def bind_def emit_def)
  qed
qed

theorem folds_in_order_witness:
  "filter is_step (trace (snd (train_folds toy_env ''config'' toy_folds st0))) =
     fold_steps 1 @ fold_steps 2"
proof -
  have run: "\<exists>st'. train_folds toy_env ''config'' toy_folds st0 = (Inr (), st')"
    by (simp add: stage_defs prog_defs toy_defs np_mean_def newline_def)
  then obtain st' where r: "train_folds toy_env ''config'' toy_folds st0 = (Inr (), st')"
    by blast
  have two: "[1 ..< Suc (length toy_folds)] = [1, 2]"
    by (simp add: toy_folds_def upt_rec)
  from folds_in_order [OF r] obtain new where
    n: "trace st' = trace st0 @ new" and
    f: "filter is_step new = concat (map fold_steps [1 ..< Suc (length toy_folds)])"
    by blast
  have "trace st0 = []" by (simp add: st0_def)
  with n f two have "filter is_step (trace st') = fold_steps 1 @ fold_steps 2" by simp
  then show ?thesis by (simp add: r)
qed

subsection \<open>A failing model fit\<close>

lemma fold_loop_append:
  "fold_loop env config k (xs @ ys) accs lcd =
     bind (fold_loop env config k xs accs lcd)
       (\<lambda>(accs', lcd'). fold_loop env config (k + length xs) ys accs' lcd')"
proof (induction xs arbitrary: k accs lcd)
  case Nil
  show ?case by (simp add: bind_def return_def fun_eq_iff)
next
  case (Cons x xs)
  show ?case
    by (simp add: Cons.IH bind_def fun_eq_iff split: prod.splits sum.splits)
qed

lemma train_fails:
  assumes mp: "get_model_path env config fold_idx (world st1) = (Inr model_path, w2)"
      and pp: "get_params_path env config fold_idx w2 = (Inr params_path, w3)"
      and mt: "model_training env Xb yb Xt yt model_path params_path w3 = (Inl e, w4)"
  shows "train_and_evaluate env config fold_idx (Xb, Xt, yb, yt) accs lcd st1 =
     (Inl e, \<lparr>world = w4, trace = trace st1 @
        [InfoFold ''Beginning Model Training and Evaluation for Fold'' fold_idx,
         Call ''get_model_path'', Done ''get_model_path'',
         Call ''get_params_path'', Done ''get_params_path'', Call ''model_training'']\<rparr>)"
  using assms by (simp add: train_and_evaluate_def prog_defs)

lemma main_handler:
  assumes "load_inputs env st = (Inr (config, file_paths, df_ceas, df_spamassassin), st1)"
      and "try_block env config file_paths df_ceas df_spamassassin st1 = (Inl e, st2)"
      and "is_Exception e"
  shows "main env st = (Returned, st2\<lparr>trace := trace st2 @ [ErrorExn e]\<rparr>)"
  using assms by (simp add: main_def)

text \<open>
  C3, as the code has it. The call of \<open>model_training\<close> has no handler of its own inside
  the loop. When the folds before fold \<open>i + 1\<close> have been processed and the training of
  fold \<open>i + 1\<close> raises an exception of class \<open>Exception\<close>, the exception leaves the loop
  and reaches the top-level handler: the trace of the run ends with the entry into
  \<open>model_training\<close> and the logged error, the world is the one the failing call left,
  and \<open>main\<close> returns. No later fold is begun and no overall accuracy is computed.
\<close>

theorem training_failure_ends_run:
  assumes ld: "load_inputs env st = (Inr (config, file_paths, df_ceas, df_spamassassin), st1)"
      and pf: "prepare_folds env file_paths df_ceas df_spamassassin st1 = (Inr folds, st2)"
      and i: "i < length folds"
      and before: "fold_loop env config 1 (take i folds) [] [] st2 = (Inr (accs, lcd), st3)"
      and fe: "feature_extraction env (Suc i) (folds ! i) st3 = (Inr (Xb, Xt, yb, yt), st4)"
      and mp: "get_model_path env config (Suc i) (world st4) = (Inr model_path, w5)"
      and pp: "get_params_path env config (Suc i) w5 = (Inr params_path, w6)"
      and mt: "model_training env Xb yb Xt yt model_path params_path w6 = (Inl e, w7)"
      and ex: "is_Exception e"
  shows "main env st =
     (Returned, \<lparr>world = w7, trace = trace st4 @
        [InfoFold ''Beginning Model Training and Evaluation for Fold'' (Suc i),
         Call ''get_model_path'', Done ''get_model_path'',
         Call ''get_params_path'', Done ''get_params_path'', Call ''model_training'',
         ErrorExn e]\<rparr>)"
proof -
  let ?st5 = "\<lparr>world = w7, trace = trace st4 @
        [InfoFold ''Beginning Model Training and Evaluation for Fold'' (Suc i),
         Call ''get_model_path'', Done ''get_model_path'',
         Call ''get_params_path'', Done ''get_params_path'', Call ''model_training'']\<rparr>"
  have body: "fold_body env config (Suc i) (folds ! i) accs lcd st3 = (Inl e, ?st5)"
    unfolding fold_body_def by (simp add: bind_def fe train_fails [OF mp pp mt])
  have folds: "folds = take i folds @ (folds ! i) # drop (Suc i) folds"
    using i by (simp add: id_take_nth_drop)
  have "fold_loop env config 1 (take i folds @ (folds ! i) # drop (Suc i) folds) [] [] st2 =
          (Inl e, ?st5)"
    using i before body by (simp add: fold_loop_append bind_def)
  with folds have loop: "fold_loop env config 1 folds [] [] st2 = (Inl e, ?st5)"
    by simp
  have "try_block env config file_paths df_ceas df_spamassassin st1 = (Inl e, ?st5)"
    unfolding try_block_def train_folds_def
    using pf loop by (simp add: bind_def)
  from main_handler [OF ld this ex] show ?thesis by simp
qed

theorem training_failure_ends_run_witness:
  "fst (main toy_bad_training st0) = Returned \<and>
   take 1 (rev (trace (snd (main toy_bad_training st0)))) = [ErrorExn (ValueError ''one class'')]"
proof -
  obtain st2 where pf: "prepare_folds toy_bad_training toy_paths toy_ceas toy_spamassassin
      st_loaded = (Inr toy_folds, st2)"
    using toy_bad_training_prepare by blast
  have i: "0 < length toy_folds" by (simp add: toy_folds_def)
  have before: "fold_loop toy_bad_training ''config'' 1 (take 0 toy_folds) [] [] st2 =
      (Inr ([], []), st2)"
    by (simp add: return_def)
  obtain st4 where fe: "feature_extraction toy_bad_training (Suc 0) (toy_folds ! 0) st2 =
      (Inr (1, 1, [IntV 0], [IntV 1]), st4)"
    using toy_bad_training_extract [of st2] by auto
  have mp: "get_model_path toy_bad_training ''config'' (Suc 0) (world st4) =
      (Inr ''model'', world st4)"
    by (simp add: toy_bad_training_def toy_env_def ok_def)
  have pp: "get_params_path toy_bad_training ''config'' (Suc 0) (world st4) =
      (Inr ''params'', world st4)"
    by (simp add: toy_bad_training_def toy_env_def ok_def)
  have mt: "model_training toy_bad_training 1 [IntV 0] 1 [IntV 1] ''model'' ''params''
      (world st4) = (Inl (ValueError ''one class''), world st4)"
    by (simp add: toy_bad_training_def toy_env_def fails_def)
  have ex: "is_Exception (ValueError ''one class'')" by simp
  from training_failure_ends_run [OF toy_bad_training_loads pf i before fe mp pp mt ex]
  show ?thesis by simp
qed

text \<open>
  C3 as the specification states it fails: with two folds and a training that fails in
  fold 1, fold 2 is never begun and no overall accuracy is logged.
\<close>

theorem training_failure_counterexample:
  "length toy_folds = 2 \<and>
   fst (main toy_bad_training st0) = Returned \<and>
   Call ''model_training'' \<in> set (trace (snd (main toy_bad_training st0))) \<and>
   Done ''model_training'' \<notin> set (trace (snd (main toy_bad_training st0))) \<and>
   InfoFold ''Beginning Feature Extraction for Fold'' 2
     \<notin> set (trace (snd (main toy_bad_training st0))) \<and>
   filter is_overall_accuracy (trace (snd (main toy_bad_training st0))) = []"
proof -
  obtain st2 where
    t: "try_block toy_bad_training ''config'' toy_paths toy_ceas toy_spamassassin st_loaded =
          (Inl (ValueError ''one class''), st2)" and
    p: "InfoFold ''Beginning Feature Extraction for Fold'' 2 \<notin> set (trace st2)"
       "\<forall>m. InfoMean m \<notin> set (trace st2)"
       "Call ''model_training'' \<in> set (trace st2)"
       "Done ''model_training'' \<notin> set (trace st2)"
    using toy_bad_training_try by blast
  have "main toy_bad_training st0 =
      (Returned, st2\<lparr>trace := trace st2 @ [ErrorExn (ValueError ''one class'')]\<rparr>)"
    by (rule main_handler [OF toy_bad_training_loads t]) simp
  moreover have "filter is_overall_accuracy (trace st2) = []"
    unfolding filter_empty_conv
  proof
    fix ev assume "ev \<in> set (trace st2)"
    with p(2) show "\<not> is_overall_accuracy ev" by (cases ev) auto
  qed
  ultimately show ?thesis using p by (simp add: toy_folds_def)
qed

subsection \<open>The cleaned CEAS_08 headers\<close>

lemma drop_columns_len: "drop_columns cs df = Inr df' \<Longrightarrow> len df' = len df"
  by (auto simp: drop_columns_def len_def Let_def split: list.splits)

lemma concat_axis1_same_len:
  assumes "len a = len b"
  shows "rows (concat_axis1 a b) = map (\<lambda>(r, s). r @ s) (zip (rows a) (rows b))"
    and "columns (concat_axis1 a b) = columns a @ columns b"
    and "len (concat_axis1 a b) = len b"
  using assms by (simp_all add: concat_axis1_def len_def pad_rows_def Let_def)

lemma merge_cleaned_headers_result:
  assumes "merge_cleaned_headers hdr proc st = (Inr (proc', merged), st')"
  shows "len hdr = len proc \<and> drop_columns [''sender'', ''receiver''] proc = Inr proc' \<and>
         merged = concat_axis1 hdr proc' \<and>
         (\<exists>missing. missing_sender_receiver merged = Inr missing \<and>
            trace st' = trace st @
              [InfoCols ''Columns in df_cleaned_ceas_headers'' (columns hdr),
               InfoCols ''Columns in df_processed_ceas'' (columns proc'),
               InfoNum ''Number of missing rows in Merged Cleaned Headers of CEAS_08 DataFrame''
                 (length missing),
               InfoNum ''Total rows in Processed CEAS_08 Dataframe'' (len proc'),
               InfoNum ''Total rows in Merged Cleaned Headers of CEAS_08 Dataframe''
                 (len merged)]) \<and>
         world st' = world st"
  using assms
  by (auto simp: merge_cleaned_headers_def prog_defs Let_def split: if_splits sum.splits)

lemma merge_cleaned_headers_rows:
  assumes "merge_cleaned_headers hdr proc st = (Inr (proc', merged), st')"
  shows "len merged = len proc"
    and "\<forall>i < len proc. rows merged ! i = rows hdr ! i @ rows proc' ! i"
proof -
  from merge_cleaned_headers_result [OF assms] have
    l: "len hdr = len proc" and d: "drop_columns [''sender'', ''receiver''] proc = Inr proc'"
    and m: "merged = concat_axis1 hdr proc'"
    by auto
  from d have l': "len proc' = len proc" by (rule drop_columns_len)
  with l have ll: "len hdr = len proc'" by simp
  show "len merged = len proc" using concat_axis1_same_len(3) [OF ll] m l' by simp
  show "\<forall>i < len proc. rows merged ! i = rows hdr ! i @ rows proc' ! i"
    using concat_axis1_same_len(1) [OF ll] m l l' by (simp add: len_def)
qed

lemma toy_merge_cleaned_headers:
  "merge_cleaned_headers toy_headers toy_ceas st0 =
     (Inr (toy_ceas_dropped, toy_merged), st_merged)"
  by (simp add: merge_cleaned_headers_def pandas_defs prog_defs toy_defs toy_ceas_dropped_def
      toy_merged_def st_merged_def)

text \<open>
  C8. When lines 151 to 179 complete (the cleaned headers and the processed frame have the
  same number of rows, the processed frame has a sender and a receiver column to drop, the
  merged frame has a sender and a receiver column), the merged frame has as many rows as
  the processed frame, row \<open>i\<close> of it is row \<open>i\<close> of the cleaned headers followed by row
  \<open>i\<close> of the processed frame without its two header columns, and the number that is
  logged is the number of merged rows whose sender or receiver is missing: the rows are
  counted, none is dropped.
\<close>

theorem null_headers_counted_not_dropped:
  assumes "merge_cleaned_headers hdr proc st = (Inr (proc', merged), st')"
  shows "len merged = len proc \<and>
         drop_columns [''sender'', ''receiver''] proc = Inr proc' \<and>
         (\<forall>i < len proc. rows merged ! i = rows hdr ! i @ rows proc' ! i) \<and>
         (\<exists>i j. col_index ''sender'' (columns merged) = Some i \<and>
                col_index ''receiver'' (columns merged) = Some j \<and>
                InfoNum ''Number of missing rows in Merged Cleaned Headers of CEAS_08 DataFrame''
                  (length (filter (\<lambda>r. isnull (cell_at r i) \<or> isnull (cell_at r j))
                     (rows merged)))
                  \<in> set (trace st'))"
proof -
  from merge_cleaned_headers_result [OF assms] obtain missing where
    d: "drop_columns [''sender'', ''receiver''] proc = Inr proc'"
    and mi: "missing_sender_receiver merged = Inr missing"
    and t: "InfoNum ''Number of missing rows in Merged Cleaned Headers of CEAS_08 DataFrame''
              (length missing) \<in> set (trace st')"
    by auto
  from mi t have "\<exists>i j. col_index ''sender'' (columns merged) = Some i \<and>
                col_index ''receiver'' (columns merged) = Some j \<and>
                InfoNum ''Number of missing rows in Merged Cleaned Headers of CEAS_08 DataFrame''
                  (length (filter (\<lambda>r. isnull (cell_at r i) \<or> isnull (cell_at r j))
                     (rows merged)))
                  \<in> set (trace st')"
    by (auto simp: missing_sender_receiver_def split: option.splits)
  with merge_cleaned_headers_rows [OF assms] d show ?thesis by blast
qed

theorem null_headers_counted_not_dropped_witness:
  "len toy_merged = len toy_ceas \<and> len toy_ceas = 2 \<and>
   rows toy_merged ! 1 = rows toy_headers ! 1 @ rows toy_ceas_dropped ! 1 \<and>
   InfoNum ''Number of missing rows in Merged Cleaned Headers of CEAS_08 DataFrame'' 1
     \<in> set (trace st_merged)"
proof -
  have two: "len toy_ceas = 2" "1 < len toy_ceas" by (simp_all add: toy_ceas_def len_def)
  have "InfoNum ''Number of missing rows in Merged Cleaned Headers of CEAS_08 DataFrame'' 1
     \<in> set (trace st_merged)"
    by (simp add: st_merged_def)
  with null_headers_counted_not_dropped [OF toy_merge_cleaned_headers] two
  show ?thesis by blast
qed

subsection \<open>Join keys\<close>

lemma plot_learning_curves_merge [simp]:
  "plot_learning_curves (env\<lparr>merge_dataframes := f\<rparr>) lcd = plot_learning_curves env lcd"
  by (induction lcd) auto

lemma fold_body_merge [simp]:
  "fold_body (env\<lparr>merge_dataframes := f\<rparr>) config i fd accs lcd =
     fold_body env config i fd accs lcd"
  by (simp add: fold_body_def feature_extraction_def build_pipeline_def train_and_evaluate_def)

lemma fold_loop_merge [simp]:
  "fold_loop (env\<lparr>merge_dataframes := f\<rparr>) config k folds accs lcd =
     fold_loop env config k folds accs lcd"
  by (induction folds arbitrary: k accs lcd) (simp_all add: case_prod_unfold)

lemma load_inputs_merge [simp]:
  "load_inputs (env\<lparr>merge_dataframes := f\<rparr>) = load_inputs env"
  by (simp add: load_inputs_def)

lemma data_preprocessing_merge [simp]:
  "data_preprocessing (env\<lparr>merge_dataframes := f\<rparr>) = data_preprocessing env"
  by (simp add: data_preprocessing_def fun_eq_iff)

lemma save_merged_headers_merge [simp]:
  "save_merged_headers (env\<lparr>merge_dataframes := f\<rparr>) = save_merged_headers env"
  by (simp add: save_merged_headers_def fun_eq_iff cong: if_cong)

lemma header_cleaning_merge [simp]:
  "header_cleaning (env\<lparr>merge_dataframes := f\<rparr>) = header_cleaning env"
  by (simp add: header_cleaning_def fun_eq_iff case_prod_unfold)

lemma body_cleaning_merge [simp]:
  "body_cleaning (env\<lparr>merge_dataframes := f\<rparr>) = body_cleaning env"
  by (simp add: body_cleaning_def fun_eq_iff)

lemma noise_and_split_merge [simp]:
  "noise_and_split (env\<lparr>merge_dataframes := f\<rparr>) = noise_and_split env"
  by (simp add: noise_and_split_def fun_eq_iff)

lemma data_integration_merge:
  assumes "\<And>a b ren sel. f a b ''index'' ren sel = merge_dataframes env a b ''index'' ren sel"
  shows "data_integration (env\<lparr>merge_dataframes := f\<rparr>) = data_integration env"
  unfolding data_integration_def fun_eq_iff by (simp add: assms)

lemma try_block_merge:
  assumes "\<And>a b ren sel. f a b ''index'' ren sel = merge_dataframes env a b ''index'' ren sel"
  shows "try_block (env\<lparr>merge_dataframes := f\<rparr>) = try_block env"
  by (simp add: fun_eq_iff try_block_def train_folds_def prepare_folds_def case_prod_unfold
      data_integration_merge [of f env, OF assms])

lemma main_merge:
  assumes "\<And>a b ren sel. f a b ''index'' ren sel = merge_dataframes env a b ''index'' ren sel"
  shows "main (env\<lparr>merge_dataframes := f\<rparr>) = main env"
  by (simp add: fun_eq_iff main_def try_block_merge [of f env, OF assms]
      cong: prod.case_cong sum.case_cong)

text \<open>
  C6, as the code has it. \<open>main\<close> calls \<open>merge_dataframes\<close> with the join key \<open>index\<close>
  only: replacing the collaborator by any other that agrees with it on that key leaves
  \<open>main\<close> unchanged. The cleaned CEAS_08 sender and receiver, however, are attached to the
  processed frame by row position: row \<open>i\<close> of the merged frame is row \<open>i\<close> of the cleaned
  headers followed by row \<open>i\<close> of the processed frame, whatever the index cells hold.
\<close>

theorem merges_on_index_headers_by_position:
  assumes "\<And>a b ren sel. f a b ''index'' ren sel = merge_dataframes env a b ''index'' ren sel"
      and "merge_cleaned_headers hdr proc st = (Inr (proc', merged), st')"
  shows "main (env\<lparr>merge_dataframes := f\<rparr>) = main env \<and>
         (\<forall>i < len proc. rows merged ! i = rows hdr ! i @ rows proc' ! i)"
  using main_merge [of f env, OF assms(1)] merge_cleaned_headers_rows(2) [OF assms(2)]
  by blast

theorem merges_on_index_headers_by_position_witness:
  "main (toy_env\<lparr>merge_dataframes := toy_merge_on_index\<rparr>) = main toy_env \<and>
   rows toy_merged ! 1 = rows toy_headers ! 1 @ rows toy_ceas_dropped ! 1"
proof -
  have agree: "\<And>a b ren sel. toy_merge_on_index a b ''index'' ren sel =
      merge_dataframes toy_env a b ''index'' ren sel"
    by (simp add: toy_merge_on_index_def toy_env_def)
  have "1 < len toy_ceas" by (simp add: toy_ceas_def len_def)
  with merges_on_index_headers_by_position
    [of toy_merge_on_index toy_env, OF agree toy_merge_cleaned_headers]
  show ?thesis by blast
qed

text \<open>
  C6 as the specification states it fails. The same two CEAS_08 records in either order
  and the same cleaned headers: the record with index 0, whose own sender is
  \<open>a@x.org\<close>, is given the sender \<open>a@x.org\<close> in one order and \<open>c@x.org\<close> in the other.
  A join on the index key would not depend on the order of the rows.
\<close>

theorem header_reattachment_counterexample:
  "attached_sender toy_headers toy_ceas 0 = Some (StrV ''a@x.org'') \<and>
   attached_sender toy_headers toy_ceas_reordered 0 = Some (StrV ''c@x.org'') \<and>
   lookup_by_index toy_ceas 0 ''sender'' = Some (StrV ''a@x.org'') \<and>
   lookup_by_index toy_ceas_reordered 0 ''sender'' = Some (StrV ''a@x.org'') \<and>
   columns toy_ceas_reordered = columns toy_ceas \<and>
   set (rows toy_ceas_reordered) = set (rows toy_ceas)"
  by (simp add: attached_sender_def lookup_by_index_def merge_cleaned_headers_def
      toy_ceas_reordered_def pandas_defs prog_defs toy_defs insert_commute)

section \<open>Properties of the collaborators as the specification describes them\<close>

subsection \<open>The feature cache\<close>

lemma run_hit:
  assumes "cached w dir fold_idx"
  shows "run_pipeline_or_load_spec fold_idx X_train X_test y_train y_test pipeline dir w =
     (Inr (the (feature_files w (dir, fold_idx, ''X_train_balanced'')),
           the (feature_files w (dir, fold_idx, ''X_test_combined'')),
           the (label_files w (dir, fold_idx, ''y_train_balanced'')),
           the (label_files w (dir, fold_idx, ''y_test''))), w)"
  using assms by (auto simp: cached_def run_pipeline_or_load_spec_def)

lemma run_miss:
  assumes "\<not> cached w dir fold_idx"
      and "pipeline X_train X_test y_train y_test = Inr (a, b, c, d)"
  shows "run_pipeline_or_load_spec fold_idx X_train X_test y_train y_test pipeline dir w =
     (Inr (a, b, c, d),
      w\<lparr>feature_files := (feature_files w)
           ((dir, fold_idx, ''X_train_balanced'') \<mapsto> a,
            (dir, fold_idx, ''X_test_combined'') \<mapsto> b),
        label_files := (label_files w)
           ((dir, fold_idx, ''y_train_balanced'') \<mapsto> c,
            (dir, fold_idx, ''y_test'') \<mapsto> d),
        pipeline_runs := Suc (pipeline_runs w)\<rparr>)"
  using assms
  by (auto simp: cached_def run_pipeline_or_load_spec_def split: option.splits)

lemma run_success_cached:
  assumes "run_pipeline_or_load_spec fold_idx X_train X_test y_train y_test pipeline dir w =
             (Inr out, w')"
  shows "cached w' dir fold_idx \<and>
         out = (the (feature_files w' (dir, fold_idx, ''X_train_balanced'')),
           the (feature_files w' (dir, fold_idx, ''X_test_combined'')),
           the (label_files w' (dir, fold_idx, ''y_train_balanced'')),
           the (label_files w' (dir, fold_idx, ''y_test'')))"
  using assms
  by (auto simp: cached_def run_pipeline_or_load_spec_def split: option.splits sum.splits)

text \<open>
  C1. A call of \<open>run_pipeline_or_load\<close> that returns the four artifacts has either found
  all four files and loaded them, leaving the world as it was (no run of the pipeline), or
  has run the pipeline once and returns its outputs; either way the four files then hold
  the four outputs, and a second call with the same fold index and cache directory,
  whatever its other arguments, returns the same outputs and leaves the world as it is: it
  runs no pipeline.
\<close>

theorem run_pipeline_or_load_idempotent:
  assumes first: "run_pipeline_or_load_spec fold_idx X_train X_test y_train y_test pipeline dir w =
             (Inr out, w')"
  shows "(cached w dir fold_idx \<longrightarrow> w' = w \<and>
            out = (the (feature_files w (dir, fold_idx, ''X_train_balanced'')),
                   the (feature_files w (dir, fold_idx, ''X_test_combined'')),
                   the (label_files w (dir, fold_idx, ''y_train_balanced'')),
                   the (label_files w (dir, fold_idx, ''y_test'')))) \<and>
         (\<not> cached w dir fold_idx \<longrightarrow>
            pipeline X_train X_test y_train y_test = Inr out \<and>
            pipeline_runs w' = Suc (pipeline_runs w)) \<and>
         feature_files w' (dir, fold_idx, ''X_train_balanced'') = Some (fst out) \<and>
         feature_files w' (dir, fold_idx, ''X_test_combined'') = Some (fst (snd out)) \<and>
         label_files w' (dir, fold_idx, ''y_train_balanced'') = Some (fst (snd (snd out))) \<and>
         label_files w' (dir, fold_idx, ''y_test'') = Some (snd (snd (snd out))) \<and>
         run_pipeline_or_load_spec fold_idx X_train2 X_test2 y_train2 y_test2 pipeline2 dir w' =
           (Inr out, w')"
proof -
  from run_success_cached [OF first] have c: "cached w' dir fold_idx" and
    o: "out = (the (feature_files w' (dir, fold_idx, ''X_train_balanced'')),
           the (feature_files w' (dir, fold_idx, ''X_test_combined'')),
           the (label_files w' (dir, fold_idx, ''y_train_balanced'')),
           the (label_files w' (dir, fold_idx, ''y_test'')))"
    by auto
  have again: "run_pipeline_or_load_spec fold_idx X_train2 X_test2 y_train2 y_test2 pipeline2 dir w' =
           (Inr out, w')"
    using run_hit [OF c] o by simp
  have hit: "cached w dir fold_idx \<longrightarrow> w' = w \<and>
            out = (the (feature_files w (dir, fold_idx, ''X_train_balanced'')),
                   the (feature_files w (dir, fold_idx, ''X_test_combined'')),
                   the (label_files w (dir, fold_idx, ''y_train_balanced'')),
                   the (label_files w (dir, fold_idx, ''y_test'')))"
    using first run_hit [of w dir fold_idx X_train X_test y_train y_test pipeline] by auto
  have miss: "\<not> cached w dir fold_idx \<longrightarrow>
            pipeline X_train X_test y_train y_test = Inr out \<and>
            pipeline_runs w' = Suc (pipeline_runs w)"
    using first
    by (auto simp: cached_def run_pipeline_or_load_spec_def split: option.splits sum.splits)
  have files: "feature_files w' (dir, fold_idx, ''X_train_balanced'') = Some (fst out) \<and>
         feature_files w' (dir, fold_idx, ''X_test_combined'') = Some (fst (snd out)) \<and>
         label_files w' (dir, fold_idx, ''y_train_balanced'') = Some (fst (snd (snd out))) \<and>
         label_files w' (dir, fold_idx, ''y_test'') = Some (snd (snd (snd out)))"
    using c o by (auto simp: cached_def)
  from hit miss files again show ?thesis by blast
qed

theorem run_pipeline_or_load_idempotent_witness:
  "run_pipeline_or_load_spec 1 toy_X_test toy_X_train [] [] broken_pipeline
     ''feature_extraction'' cache_after_fold_1 =
     (Inr (1, 1, [IntV 0], [IntV 1]), cache_after_fold_1) \<and>
   pipeline_runs cache_after_fold_1 = 1 \<and> \<not> cached empty_cache ''feature_extraction'' 1"
proof -
  have miss: "\<not> cached empty_cache ''feature_extraction'' 1"
    by (simp add: cached_def empty_cache_def)
  have out: "toy_pipeline toy_X_train toy_X_test [IntV 0] [IntV 1] =
      Inr (1, 1, [IntV 0], [IntV 1])"
    by (simp add: toy_pipeline_def toy_X_train_def toy_X_test_def len_def)
  have first: "run_pipeline_or_load_spec 1 toy_X_train toy_X_test [IntV 0] [IntV 1]
      toy_pipeline ''feature_extraction'' empty_cache =
      (Inr (1, 1, [IntV 0], [IntV 1]), cache_after_fold_1)"
    by (simp add: cache_after_fold_1_def run_pipeline_or_load_spec_def empty_cache_def out)
  have "pipeline_runs empty_cache = 0" by (simp add: empty_cache_def)
  with run_pipeline_or_load_idempotent [OF first] miss show ?thesis by simp
qed

subsection \<open>Rebalancing\<close>


lemma count_label_append [simp]:
  "count_label c (xs @ ys) = count_label c xs + count_label c ys"
  by (simp add: count_label_def)

lemma count_label_replicate [simp]:
  "count_label c (replicate k (IntV d)) = (if c = d then k else 0)"
  by (simp add: count_label_def)





subsection \<open>The splitting into folds\<close>

lemma set_every_kth:
  "set (every_kth k g zs) = {zs ! j | j. j < length zs \<and> j mod k = g}"
  by (auto simp: every_kth_def)

lemma every_kth_subset: "set (every_kth k g zs) \<subseteq> set zs"
  by (auto simp: set_every_kth)

lemma distinct_every_kth: "distinct zs \<Longrightarrow> distinct (every_kth k g zs)"
  by (auto simp: every_kth_def distinct_map inj_on_def nth_eq_iff_index_eq)

lemma every_kth_unique:
  assumes "distinct zs" and "0 < k" and "x \<in> set zs"
  shows "\<exists>!g. g < k \<and> x \<in> set (every_kth k g zs)"
proof -
  from assms(3) obtain j where j: "j < length zs" "zs ! j = x"
    by (auto simp: in_set_conv_nth)
  show ?thesis
  proof (rule ex1I [of _ "j mod k"])
    show "j mod k < k \<and> x \<in> set (every_kth k (j mod k) zs)"
      using j assms(2) by (auto simp: set_every_kth)
  next
    fix g assume "g < k \<and> x \<in> set (every_kth k g zs)"
    then obtain j' where "j' < length zs" "j' mod k = g" "zs ! j' = x"
      by (auto simp: set_every_kth)
    with j assms(1) have "j' = j" by (metis nth_eq_iff_index_eq)
    with \<open>j' mod k = g\<close> show "g = j mod k" by simp
  qed
qed

lemma set_positions_of: "set (positions_of c y) = {i. i < length y \<and> y ! i = c}"
  by (auto simp: positions_of_def)

lemma distinct_positions_of: "distinct (positions_of c y)"
  by (simp add: positions_of_def)


lemma distinct_concat_map:
  assumes "distinct cs" and "\<And>c. c \<in> set cs \<Longrightarrow> distinct (F c)"
      and "\<And>c d. c \<noteq> d \<Longrightarrow> set (F c) \<inter> set (F d) = {}"
  shows "distinct (concat (map F cs))"
  using assms(1,2)
proof (induction cs)
  case Nil
  show ?case by simp
next
  case (Cons c cs)
  have "\<And>d. d \<in> set cs \<Longrightarrow> set (F c) \<inter> set (F d) = {}"
  proof -
    fix d assume "d \<in> set cs"
    with Cons.prems(1) have "c \<noteq> d" by auto
    then show "set (F c) \<inter> set (F d) = {}" by (rule assms(3))
  qed
  then have "set (F c) \<inter> (\<Union>d \<in> set cs. set (F d)) = {}" by blast
  with Cons show ?case by auto
qed

lemma shuffled_class:
  assumes "\<And>xs. mset (sh xs) = mset xs"
  shows "set (sh (positions_of c y)) = {i. i < length y \<and> y ! i = c}"
    and "distinct (sh (positions_of c y))"
proof -
  have m: "mset (sh (positions_of c y)) = mset (positions_of c y)"
    by (rule assms)
  from mset_eq_setD [OF m] show "set (sh (positions_of c y)) =
      {i. i < length y \<and> y ! i = c}"
    by (simp add: set_positions_of)
  from mset_eq_imp_distinct_iff [OF m] show "distinct (sh (positions_of c y))"
    by (simp add: distinct_positions_of)
qed

lemma in_test_indices:
  assumes "\<And>xs. mset (sh xs) = mset xs"
  shows "i \<in> set (test_indices sh k y g) \<longleftrightarrow>
           i < length y \<and> i \<in> set (every_kth k g (sh (positions_of (y ! i) y)))"
proof
  assume "i \<in> set (test_indices sh k y g)"
  then obtain c where c: "c \<in> set y"
    "i \<in> set (every_kth k g (sh (positions_of c y)))"
    by (auto simp: test_indices_def)
  with every_kth_subset [of k g "sh (positions_of c y)"]
  have "i \<in> set (sh (positions_of c y))" by blast
  with shuffled_class(1) [OF assms] have "i < length y" "y ! i = c" by auto
  with c show "i < length y \<and> i \<in> set (every_kth k g (sh (positions_of (y ! i) y)))"
    by simp
next
  assume "i < length y \<and> i \<in> set (every_kth k g (sh (positions_of (y ! i) y)))"
  then show "i \<in> set (test_indices sh k y g)"
    by (auto simp: test_indices_def intro!: bexI [of _ "y ! i"])
qed

lemma test_indices_unique:
  assumes perm: "\<And>xs. mset (sh xs) = mset xs" and k: "0 < k" and i: "i < length y"
  shows "\<exists>!g. g < k \<and> i \<in> set (test_indices sh k y g)"
proof -
  have "i \<in> set (sh (positions_of (y ! i) y))"
    using shuffled_class(1) [OF perm] i by simp
  from every_kth_unique [OF shuffled_class(2) [OF perm] k this]
  show ?thesis using i by (simp add: in_test_indices [OF perm])
qed

lemma distinct_test_indices:
  assumes perm: "\<And>xs. mset (sh xs) = mset xs"
  shows "distinct (test_indices sh k y g)"
proof -
  have "distinct (concat (map (\<lambda>c. every_kth k g (sh (positions_of c y))) (remdups y)))"
  proof (rule distinct_concat_map)
    show "distinct (remdups y)" by simp
  next
    fix c show "distinct (every_kth k g (sh (positions_of c y)))"
      by (rule distinct_every_kth [OF shuffled_class(2) [OF perm]])
  next
    fix c d :: cell assume "c \<noteq> d"
    have "set (every_kth k g (sh (positions_of c y))) \<subseteq> {i. i < length y \<and> y ! i = c}"
      using every_kth_subset [of k g "sh (positions_of c y)"] shuffled_class(1) [OF perm]
      by blast
    moreover
    have "set (every_kth k g (sh (positions_of d y))) \<subseteq> {i. i < length y \<and> y ! i = d}"
      using every_kth_subset [of k g "sh (positions_of d y)"] shuffled_class(1) [OF perm]
      by blast
    ultimately
    show "set (every_kth k g (sh (positions_of c y))) \<inter>
          set (every_kth k g (sh (positions_of d y))) = {}"
      using \<open>c \<noteq> d\<close> by auto
  qed
  then show ?thesis by (simp add: test_indices_def)
qed

lemma test_indices_in_range:
  assumes perm: "\<And>xs. mset (sh xs) = mset xs" and "i \<in> set (test_indices sh k y g)"
  shows "i < length y"
  using assms(2) by (simp add: in_test_indices [OF perm])

lemma train_test_partition:
  assumes perm: "\<And>xs. mset (sh xs) = mset xs"
  shows "set (train_indices sh k y g) \<union> set (test_indices sh k y g) = {0 ..< length y}"
    and "set (train_indices sh k y g) \<inter> set (test_indices sh k y g) = {}"
proof -
  have r: "set (test_indices sh k y g) \<subseteq> {0 ..< length y}"
    using test_indices_in_range [OF perm] by fastforce
  have t: "set (train_indices sh k y g) = {0 ..< length y} - set (test_indices sh k y g)"
    by (auto simp: train_indices_def)
  from r t show "set (train_indices sh k y g) \<union> set (test_indices sh k y g) = {0 ..< length y}"
    by blast
  from t show "set (train_indices sh k y g) \<inter> set (test_indices sh k y g) = {}"
    by blast
qed

text \<open>
  C4. For a frame with a label column, a positive number \<open>k\<close> of folds and a random
  generator that permutes what it shuffles, the split returns exactly \<open>k\<close> folds; fold
  \<open>g\<close> consists of the rows and labels at its training and at its test positions; the
  test positions of a fold are without repetition, and with the training positions they
  make up all the positions, the two being disjoint; and every record lies in the test
  part of exactly one fold. The split is a function of the frame, of \<open>k\<close> and of the
  seed, hence the same on every call with the same seed.
\<close>

theorem folds_partition_the_records:
  assumes perm: "\<And>xs. mset (shuffle seed xs) = mset xs"
      and k: "0 < k"
      and lab: "col_index ''label'' (columns df) = Some j"
  shows "\<exists>folds. stratified_k_fold_split_spec shuffle seed k df = Inr folds \<and>
           length folds = k \<and>
           (\<forall>g < k. folds ! g =
              (select_rows (train_indices (shuffle seed) k (label_column j df) g) df,
               select_rows (test_indices (shuffle seed) k (label_column j df) g) df,
               map (\<lambda>i. label_column j df ! i)
                 (train_indices (shuffle seed) k (label_column j df) g),
               map (\<lambda>i. label_column j df ! i)
                 (test_indices (shuffle seed) k (label_column j df) g)) \<and>
              distinct (test_indices (shuffle seed) k (label_column j df) g) \<and>
              set (train_indices (shuffle seed) k (label_column j df) g) \<union>
                set (test_indices (shuffle seed) k (label_column j df) g) = {0 ..< len df} \<and>
              set (train_indices (shuffle seed) k (label_column j df) g) \<inter>
                set (test_indices (shuffle seed) k (label_column j df) g) = {}) \<and>
           (\<forall>i < len df. \<exists>!g. g < k \<and>
              i \<in> set (test_indices (shuffle seed) k (label_column j df) g))"
proof -
  let ?y = "label_column j df"
  let ?sh = "shuffle seed"
  have n: "length ?y = len df" by (simp add: label_column_def len_def)
  have p: "\<And>xs. mset (?sh xs) = mset xs" by (rule perm)
  let ?folds = "map (\<lambda>g. (select_rows (train_indices ?sh k ?y g) df,
                           select_rows (test_indices ?sh k ?y g) df,
                           map (\<lambda>i. ?y ! i) (train_indices ?sh k ?y g),
                           map (\<lambda>i. ?y ! i) (test_indices ?sh k ?y g))) [0 ..< k]"
  have r: "stratified_k_fold_split_spec shuffle seed k df = Inr ?folds"
    by (simp add: stratified_k_fold_split_spec_def lab Let_def)
  have l: "length ?folds = k" by simp
  have each: "\<forall>g < k. ?folds ! g =
              (select_rows (train_indices ?sh k ?y g) df,
               select_rows (test_indices ?sh k ?y g) df,
               map (\<lambda>i. ?y ! i) (train_indices ?sh k ?y g),
               map (\<lambda>i. ?y ! i) (test_indices ?sh k ?y g)) \<and>
              distinct (test_indices ?sh k ?y g) \<and>
              set (train_indices ?sh k ?y g) \<union> set (test_indices ?sh k ?y g) = {0 ..< len df} \<and>
              set (train_indices ?sh k ?y g) \<inter> set (test_indices ?sh k ?y g) = {}"
    using distinct_test_indices [of ?sh, OF p] train_test_partition [of ?sh, OF p] n
    by simp
  have uniq: "\<forall>i < len df. \<exists>!g. g < k \<and> i \<in> set (test_indices ?sh k ?y g)"
    using test_indices_unique [of ?sh, OF p k] n by simp
  from r l each uniq show ?thesis by blast
qed

lemma mset_rotate_list: "mset (rotate n xs) = mset xs"
proof -
  let ?m = "n mod length xs"
  have "mset (drop ?m xs @ take ?m xs) = mset (drop ?m xs) + mset (take ?m xs)"
    by (rule mset_append)
  also have "\<dots> = mset (take ?m xs) + mset (drop ?m xs)" by (rule union_commute)
  also have "\<dots> = mset (take ?m xs @ drop ?m xs)" by (rule mset_append [symmetric])
  also have "\<dots> = mset xs" by (simp only: append_take_drop_id)
  finally show ?thesis by (simp only: rotate_drop_take)
qed

theorem folds_partition_the_records_witness:
  "(\<exists>folds. stratified_k_fold_split_spec toy_shuffle 1 2 toy_five = Inr folds \<and>
      length folds = 2) \<and>
   test_indices (toy_shuffle 1) 2 (label_column 1 toy_five) 0 = [0, 2, 3] \<and>
   test_indices (toy_shuffle 1) 2 (label_column 1 toy_five) 1 = [1, 4] \<and>
   len toy_five = 5"
proof -
  have perm: "\<And>xs. mset (toy_shuffle 1 xs) = mset xs"
    unfolding toy_shuffle_def by (rule mset_rotate_list)
  have lab: "col_index ''label'' (columns toy_five) = Some 1"
    by (simp add: toy_five_def)
  have k: "0 < (2 :: nat)" by simp
  have t0: "test_indices (toy_shuffle 1) 2 (label_column 1 toy_five) 0 = [0, 2, 3]"
    by code_simp
  have t1: "test_indices (toy_shuffle 1) 2 (label_column 1 toy_five) 1 = [1, 4]"
    by code_simp
  have n: "len toy_five = 5" by (simp add: toy_five_def len_def)
  from folds_partition_the_records [of toy_shuffle 1 2 toy_five 1, OF perm k lab] t0 t1 n
  show ?thesis by blast
qed

subsection \<open>Merging and its verification\<close>














end
